theory Spec2Isabelle
  imports Complex_Main "HOL-Library.Log_Nat"
begin

text \<open>
  A model of the drawing-game server: the socket handlers of the server file that requires
  \<open>game/wordManager\<close> and \<open>game/antiCheat\<close>, with these two modules. The other server
  file (\<open>index.js\<close>) is a variant of the same handlers without rate limiting, word locks
  and masking; its \<open>startGame\<close>, \<open>endRound\<close> and \<open>disconnect\<close> are the same code.
\<close>

section \<open>JavaScript numbers\<close>

text \<open>
  A JavaScript number is an IEEE 754 double. A finite double is represented by the rational
  it denotes; the two zeros are identified (no operation below tells them apart in a value
  that the program stores or sends). \<open>rnd\<close> rounds an exact rational to the nearest double,
  ties to even, with gradual underflow (least exponent \<open>-1074\<close>) and overflow to infinity
  (the largest double is \<open>(2^53 - 1) * 2^971\<close>).
\<close>

datatype jsnum = Fin rat | PInf | NInf | NaN

definition pow2 :: "int \<Rightarrow> rat" where
  "pow2 e = (if 0 \<le> e then 2 ^ nat e else 1 / 2 ^ nat (- e))"

definition ilog2 :: "rat \<Rightarrow> int" where
  \<comment> \<open>\<open>\<lfloor>log\<^sub>2 q\<rfloor>\<close> for \<open>0 < q\<close>\<close>
  "ilog2 q = (if 1 \<le> q then bitlen \<lfloor>q\<rfloor> - 1 else - bitlen (\<lceil>1 / q\<rceil> - 1))"

definition roundEven :: "rat \<Rightarrow> int" where
  "roundEven q =
     (let f = \<lfloor>q\<rfloor>; d = q - of_int f
      in if d < 1 / 2 then f else if 1 / 2 < d then f + 1 else if even f then f else f + 1)"

definition rnd :: "rat \<Rightarrow> jsnum" where
  "rnd q =
     (if q = 0 then Fin 0
      else let a = \<bar>q\<bar>;
               e = max (ilog2 a - 52) (- 1074);
               m = roundEven (a / pow2 e)
           in if 971 < e \<or> (e = 971 \<and> 2 ^ 53 \<le> m) then (if 0 < q then PInf else NInf)
              else Fin (if 0 < q then of_int m * pow2 e else - (of_int m * pow2 e)))"

fun js_div :: "jsnum \<Rightarrow> jsnum \<Rightarrow> jsnum" where
  "js_div NaN _ = NaN"
| "js_div _ NaN = NaN"
| "js_div (Fin a) (Fin b) =
     (if b = 0 then (if a = 0 then NaN else if 0 < a then PInf else NInf) else rnd (a / b))"
| "js_div (Fin a) _ = Fin 0"
| "js_div PInf (Fin b) = (if 0 \<le> b then PInf else NInf)"
| "js_div NInf (Fin b) = (if 0 \<le> b then NInf else PInf)"
| "js_div _ _ = NaN"

fun js_mul :: "jsnum \<Rightarrow> jsnum \<Rightarrow> jsnum" where
  "js_mul NaN _ = NaN"
| "js_mul _ NaN = NaN"
| "js_mul (Fin a) (Fin b) = rnd (a * b)"
| "js_mul (Fin a) PInf = (if a = 0 then NaN else if 0 < a then PInf else NInf)"
| "js_mul (Fin a) NInf = (if a = 0 then NaN else if 0 < a then NInf else PInf)"
| "js_mul PInf (Fin b) = (if b = 0 then NaN else if 0 < b then PInf else NInf)"
| "js_mul NInf (Fin b) = (if b = 0 then NaN else if 0 < b then NInf else PInf)"
| "js_mul PInf PInf = PInf"
| "js_mul NInf NInf = PInf"
| "js_mul _ _ = NInf"

fun js_add :: "jsnum \<Rightarrow> jsnum \<Rightarrow> jsnum" where
  "js_add NaN _ = NaN"
| "js_add _ NaN = NaN"
| "js_add (Fin a) (Fin b) = rnd (a + b)"
| "js_add PInf NInf = NaN"
| "js_add NInf PInf = NaN"
| "js_add PInf _ = PInf"
| "js_add _ PInf = PInf"
| "js_add _ _ = NInf"

fun js_lt :: "jsnum \<Rightarrow> jsnum \<Rightarrow> bool" where
  "js_lt NaN _ = False"
| "js_lt _ NaN = False"
| "js_lt (Fin a) (Fin b) = (a < b)"
| "js_lt (Fin a) PInf = True"
| "js_lt NInf (Fin b) = True"
| "js_lt NInf PInf = True"
| "js_lt _ _ = False"

fun Math_floor :: "jsnum \<Rightarrow> jsnum" where
  "Math_floor (Fin a) = Fin (of_int \<lfloor>a\<rfloor>)"
| "Math_floor x = x"

fun Math_max :: "jsnum \<Rightarrow> jsnum \<Rightarrow> jsnum" where
  "Math_max NaN _ = NaN"
| "Math_max _ NaN = NaN"
| "Math_max x y = (if js_lt x y then y else x)"

definition num :: "int \<Rightarrow> jsnum" where
  \<comment> \<open>an integer the program holds as a number\<close>
  "num i = rnd (of_int i)"

definition unitDouble :: "rat \<Rightarrow> bool" where
  \<comment> \<open>what \<open>Math.random()\<close> returns: a double in \<open>[0, 1)\<close>\<close>
  "unitDouble q \<longleftrightarrow> 0 \<le> q \<and> q < 1 \<and> rnd q = Fin q"

definition orZero :: "jsnum option \<Rightarrow> jsnum" where
  \<comment> \<open>\<open>x || 0\<close>: \<open>undefined\<close>, \<open>0\<close> and \<open>NaN\<close> are falsy\<close>
  "orZero x = (case x of None \<Rightarrow> Fin 0 | Some v \<Rightarrow> if v = Fin 0 \<or> v = NaN then Fin 0 else v)"

subsection \<open>Strings\<close>

definition lowerChar :: "char \<Rightarrow> char" where
  "lowerChar c =
     (let n = (of_char c :: nat) in if 65 \<le> n \<and> n \<le> 90 then char_of (n + 32) else c)"

definition toLowerCase :: "string \<Rightarrow> string" where
  \<comment> \<open>\<open>String.prototype.toLowerCase\<close> on ASCII text\<close>
  "toLowerCase w = map lowerChar w"

definition nthOpt :: "'a list \<Rightarrow> int \<Rightarrow> 'a option" where
  \<comment> \<open>\<open>xs[i]\<close>: \<open>undefined\<close> (here \<open>None\<close>) outside the array\<close>
  "nthOpt xs i = (if 0 \<le> i \<and> i < int (length xs) then Some (xs ! nat i) else None)"

definition charAt :: "string \<Rightarrow> int \<Rightarrow> string" where
  \<comment> \<open>\<open>s.charAt(i)\<close>: the empty string outside the string\<close>
  "charAt w i = (case nthOpt w i of None \<Rightarrow> [] | Some c \<Rightarrow> [c])"

definition nthNum :: "'a list \<Rightarrow> jsnum \<Rightarrow> 'a option" where
  \<comment> \<open>\<open>xs[i]\<close> for a number \<open>i\<close>: an element only when \<open>i\<close> is an integer inside the array\<close>
  "nthNum xs i =
     (case i of Fin q \<Rightarrow> (if q = of_int \<lfloor>q\<rfloor> then nthOpt xs \<lfloor>q\<rfloor> else None) | _ \<Rightarrow> None)"

definition charAtNum :: "string \<Rightarrow> jsnum \<Rightarrow> string" where
  \<comment> \<open>\<open>s.charAt(i)\<close> for a number \<open>i\<close>: the position is truncated, \<open>NaN\<close> counts as 0\<close>
  "charAtNum w i =
     (case i of
        Fin q \<Rightarrow> charAt w (if 0 \<le> q then \<lfloor>q\<rfloor> else \<lceil>q\<rceil>)
      | NaN \<Rightarrow> charAt w 0
      | _ \<Rightarrow> [])"

definition objectPrototypeKeys :: "string list" where
  \<comment> \<open>the property names that every plain object inherits: \<open>obj[k]\<close> is a function (for
      \<open>__proto__\<close> the prototype object) when \<open>k\<close> is one of them and not a key of \<open>obj\<close>\<close>
  "objectPrototypeKeys =
     [''constructor'', ''__defineGetter__'', ''__defineSetter__'', ''hasOwnProperty'',
      ''__lookupGetter__'', ''__lookupSetter__'', ''isPrototypeOf'', ''propertyIsEnumerable'',
      ''toString'', ''valueOf'', ''__proto__'', ''toLocaleString'']"

definition charOrUndefined :: "string \<Rightarrow> int \<Rightarrow> string" where
  \<comment> \<open>\<open>${s[i]}\<close> inside a template literal\<close>
  "charOrUndefined w i = (case nthOpt w i of None \<Rightarrow> ''undefined'' | Some c \<Rightarrow> [c])"

fun showNat :: "nat \<Rightarrow> string" where
  "showNat n =
     (if n < 10 then [char_of (48 + n)] else showNat (n div 10) @ [char_of (48 + n mod 10)])"

fun joinWith :: "string \<Rightarrow> string list \<Rightarrow> string" where
  "joinWith sep [] = []"
| "joinWith sep [x] = x"
| "joinWith sep (x # y # ys) = x @ sep @ joinWith sep (y # ys)"

fun assign :: "'k \<Rightarrow> 'v \<Rightarrow> ('k \<times> 'v) list \<Rightarrow> ('k \<times> 'v) list" where
  \<comment> \<open>\<open>obj[k] = v\<close> on an object kept in insertion order\<close>
  "assign k v [] = [(k, v)]"
| "assign k v ((k', v') # xs) = (if k = k' then (k, v) # xs else (k', v') # assign k v xs)"

section \<open>antiCheat: per-player cooldown and spam window\<close>

datatype kind = Guess | Message

record cooldown =
  guess :: int
  message :: int

record spam =
  count :: int
  lastReset :: int

record verdict =
  allowed :: bool
  remaining :: "int option"

record anticheat =
  cooldowns :: "string \<rightharpoonup> cooldown"
  spamCounts :: "string \<rightharpoonup> spam"

definition LAST_GUESS_TIMEOUT :: int where "LAST_GUESS_TIMEOUT = 1000"
definition SPAM_LIMIT :: int where "SPAM_LIMIT = 5"
definition SPAM_WINDOW :: int where "SPAM_WINDOW = 5000"

fun lastOf :: "cooldown \<Rightarrow> kind \<Rightarrow> int" where
  "lastOf c Guess = guess c"
| "lastOf c Message = message c"

fun setLast :: "cooldown \<Rightarrow> kind \<Rightarrow> int \<Rightarrow> cooldown" where
  "setLast c Guess t = c\<lparr>guess := t\<rparr>"
| "setLast c Message t = c\<lparr>message := t\<rparr>"

definition checkCooldown :: "int \<Rightarrow> string \<Rightarrow> kind \<Rightarrow> anticheat \<Rightarrow> verdict \<times> anticheat" where
  \<comment> \<open>\<open>now\<close> is the value of \<open>Date.now()\<close>; \<open>pc\<close> and \<open>sp\<close> are the player's entries after
      the two "initialize if not exists" steps\<close>
  "checkCooldown now playerId type ac =
    (let pc = (case cooldowns ac playerId of None \<Rightarrow> \<lparr>guess = 0, message = 0\<rparr> | Some c \<Rightarrow> c);
         sp = (case spamCounts ac playerId of
                 None \<Rightarrow> \<lparr>count = 0, lastReset = now\<rparr> | Some s \<Rightarrow> s);
         expired = (now - lastReset sp > SPAM_WINDOW);
         sp1 = (if expired then \<lparr>count = 0, lastReset = now\<rparr> else sp)
     in if \<not> expired \<and> count sp \<ge> SPAM_LIMIT then
          (\<lparr>allowed = False, remaining = Some (SPAM_WINDOW - (now - lastReset sp))\<rparr>,
           ac\<lparr>cooldowns := (cooldowns ac)(playerId \<mapsto> pc),
              spamCounts := (spamCounts ac)(playerId \<mapsto> sp)\<rparr>)
        else if lastOf pc type + LAST_GUESS_TIMEOUT - now > 0 then
          (\<lparr>allowed = False, remaining = Some (lastOf pc type + LAST_GUESS_TIMEOUT - now)\<rparr>,
           ac\<lparr>cooldowns := (cooldowns ac)(playerId \<mapsto> pc),
              spamCounts := (spamCounts ac)(playerId \<mapsto> sp1)\<rparr>)
        else
          (\<lparr>allowed = True, remaining = None\<rparr>,
           ac\<lparr>cooldowns := (cooldowns ac)(playerId \<mapsto> setLast pc type now),
              spamCounts := (spamCounts ac)(playerId \<mapsto> sp1\<lparr>count := count sp1 + 1\<rparr>)\<rparr>))"

definition resetSpamCounter :: "string \<Rightarrow> anticheat \<Rightarrow> anticheat" where
  "resetSpamCounter playerId ac = ac\<lparr>spamCounts := (spamCounts ac)(playerId := None)\<rparr>"

text \<open>A player's actions in sequence: each is a time and a kind; the verdicts are collected.\<close>

fun runActions :: "string \<Rightarrow> (int \<times> kind) list \<Rightarrow> anticheat \<Rightarrow> bool list \<times> anticheat" where
  "runActions p [] ac = ([], ac)"
| "runActions p ((t, k) # as) ac =
     (let (v, ac1) = checkCooldown t p k ac; (vs, ac2) = runActions p as ac1
      in (allowed v # vs, ac2))"

fun spaced :: "(int \<times> kind) list \<Rightarrow> bool" where
  \<comment> \<open>any two actions of the same kind are at least the cooldown apart\<close>
  "spaced [] = True"
| "spaced ((t, k) # as) =
     (list_all (\<lambda>(t', k'). k' = k \<longrightarrow> t + LAST_GUESS_TIMEOUT \<le> t') as \<and> spaced as)"

definition noGuard :: anticheat where
  "noGuard = \<lparr>cooldowns = Map.empty, spamCounts = Map.empty\<rparr>"

section \<open>The server state\<close>

text \<open>
  The module-level variables of the server, of \<open>game/wordManager\<close> and of \<open>game/antiCheat\<close>,
  together with what the runtime holds for the program: the pending timers, the values that
  \<open>Math.random()\<close> will return, and the messages sent so far.

  A room is an object: \<open>rooms\<close> maps a room code to a reference and \<open>heap\<close> holds the
  objects, because the callback that \<open>startRound\<close> gives to \<open>setInterval\<close> keeps the room
  object itself, also after \<open>rooms[roomCode]\<close> was deleted or replaced. References come from
  \<open>createRoom\<close> only, which writes the cell it allocates.

  The numbers the program only counts with (rounds, timer, timestamps) are integers;
  \<open>calculateScore\<close> and the hints divide them as doubles.

  \<open>rooms\<close>, \<open>players\<close> and \<open>wordLists\<close> are plain objects, so a lookup with a name that
  every object inherits (\<open>constructor\<close>, \<open>toString\<close>, \<open>__proto__\<close>, \<dots>) finds the inherited
  value. The keys that a client chooses are the room code of \<open>joinRoom\<close> and the difficulty
  of \<open>startGame\<close>, and both are modelled with that case. Socket ids are made by the
  transport, and a room code stored in \<open>players\<close> is the code of a room that was created, so
  neither is an inherited name.
\<close>

datatype error = TypeError | NoReturn

datatype roomState = Lobby | Playing | Ended

record member =
  mId :: string
  mName :: string
  mIsHost :: bool
  mAvatar :: string

record playerRec =
  room :: string
  name :: string
  isHost :: bool
  avatar :: string

record settings =
  sRounds :: int
  sRoundTime :: int
  sDifficulty :: string

record gameState =
  rounds :: int
  currentRound :: int
  roundTime :: int
  difficulty :: string
  scores :: "(string \<times> jsnum) list"
  playersWhoGuessed :: "string list"
  allPlayers :: "string list"
  avatars :: "(string \<times> string) list"
  currentDrawer :: "string option"
  currentDrawerName :: string
  currentDrawerAvatar :: string
  word :: string
  drawing :: "string option"
  timer :: int
  hint :: string

record roomObj =
  roomPlayers :: "member list"
  host :: string
  state :: roomState
  roomSettings :: "settings option"
  gameState :: "gameState option"
  timerInterval :: "nat option"

record wordLock =
  timestamp :: int
  lockDifficulty :: string

datatype task = Tick nat string | EndRound string | StartRound string

datatype audience = IoTo string | SocketTo string string | Callback string

datatype msg =
    RoomCreated string
  | JoinError string
  | JoinSuccess "member list"
  | PlayerUpdate "member list"
  | NewHost string
  | RoundStarted string string string int int int
  | WordUpdate string
  | HintMsg string
  | TimerUpdate int
  | DrawingMsg string
  | ClearCanvasMsg
  | CorrectGuess string string bool jsnum
  | GameMessage string string string int
  | ChatMessage string string string string int
  | RoundEnded "(string \<times> jsnum) list" int
  | GameEnded "(string \<times> jsnum) list" "(string \<times> string \<times> string \<times> jsnum) list"
  | LobbyRestarted "member list"

record server =
  rooms :: "string \<rightharpoonup> nat"
  heap :: "nat \<Rightarrow> roomObj"
  nextRef :: nat
  players :: "string \<rightharpoonup> playerRec"
  playerAvatars :: "string \<rightharpoonup> string"
  guard :: anticheat
  wordLists :: "string \<rightharpoonup> string list"
  activeWords :: "string \<rightharpoonup> wordLock"
  timers :: "nat \<rightharpoonup> int \<times> task"
  nextTimer :: nat
  random :: "nat \<Rightarrow> rat"
  drawn :: nat
  outbox :: "(audience \<times> msg) list"

text \<open>
  In \<open>SocketTo sender roomCode\<close> (\<open>socket.to(roomCode)\<close>) the message goes to the room
  without the sender; \<open>Callback\<close> is the acknowledgement of a request. A timer is its due
  time and its task; \<open>Tick\<close> is the interval of a round, with the room object and the room
  code its closure holds.
\<close>

definition blankRoom :: roomObj where
  "blankRoom = \<lparr>roomPlayers = [], host = [], state = Lobby, roomSettings = None,
     gameState = None, timerInterval = None\<rparr>"

definition initial :: "(string \<rightharpoonup> string list) \<Rightarrow> (nat \<Rightarrow> rat) \<Rightarrow> server" where
  \<comment> \<open>the server after start-up, given the contents of \<open>words.json\<close> and the random source\<close>
  "initial wl rng = \<lparr>rooms = Map.empty, heap = (\<lambda>_. blankRoom), nextRef = 0,
     players = Map.empty, playerAvatars = Map.empty, guard = noGuard, wordLists = wl,
     activeWords = Map.empty, timers = Map.empty, nextTimer = 0, random = rng, drawn = 0,
     outbox = []\<rparr>"

definition emit :: "audience \<Rightarrow> msg \<Rightarrow> server \<Rightarrow> server" where
  "emit a m s = s\<lparr>outbox := outbox s @ [(a, m)]\<rparr>"

definition setRoom :: "nat \<Rightarrow> roomObj \<Rightarrow> server \<Rightarrow> server" where
  "setRoom r rm s = s\<lparr>heap := (heap s)(r := rm)\<rparr>"

definition randomIndex :: "nat \<Rightarrow> server \<Rightarrow> jsnum \<times> server" where
  \<comment> \<open>\<open>Math.floor(Math.random() * n)\<close>, the product rounded as a double\<close>
  "randomIndex n s =
     (Math_floor (js_mul (Fin (random s (drawn s))) (num (int n))), s\<lparr>drawn := drawn s + 1\<rparr>)"

definition setTimer :: "int \<Rightarrow> task \<Rightarrow> server \<Rightarrow> nat \<times> server" where
  \<comment> \<open>\<open>setTimeout\<close> and \<open>setInterval\<close>: a new handle\<close>
  "setTimer due t s =
     (nextTimer s, s\<lparr>timers := (timers s)(nextTimer s \<mapsto> (due, t)), nextTimer := nextTimer s + 1\<rparr>)"

definition clearInterval :: "nat option \<Rightarrow> server \<Rightarrow> server" where
  "clearInterval h s = (case h of None \<Rightarrow> s | Some i \<Rightarrow> s\<lparr>timers := (timers s)(i := None)\<rparr>)"

section \<open>game/wordManager\<close>

definition WORD_LOCK_TIME :: int where "WORD_LOCK_TIME = 30000"

definition listFor :: "string \<Rightarrow> server \<Rightarrow> string list option" where
  \<comment> \<open>\<open>wordLists[difficulty] || wordLists.easy\<close>, when that is an array. For an inherited
      name \<open>wordLists[difficulty]\<close> is truthy, so there is no fallback, and it holds no
      words: \<open>getRandomWord\<close> reads \<open>undefined\<close> from it and throws\<close>
  "listFor d s =
     (case wordLists s d of
        Some l \<Rightarrow> Some l
      | None \<Rightarrow> if d \<in> set objectPrototypeKeys then None else wordLists s ''easy'')"

definition getRandomWord :: "int \<Rightarrow> string \<Rightarrow> server \<Rightarrow> error + string \<times> server" where
  "getRandomWord now d s =
     (case listFor d s of
        None \<Rightarrow> Inl TypeError
      | Some list \<Rightarrow>
          (let (i, s1) = randomIndex (length list) s
           in (case nthNum list i of
                 None \<Rightarrow> Inl TypeError
               | Some w \<Rightarrow>
                   Inr (w, s1\<lparr>activeWords := (activeWords s1)
                          (toLowerCase w \<mapsto> \<lparr>timestamp = now, lockDifficulty = d\<rparr>)\<rparr>))))"

definition revealCountOf :: "nat \<Rightarrow> jsnum" where
  \<comment> \<open>\<open>Math.max(1, Math.floor(chars.length * 0.3))\<close>\<close>
  "revealCountOf n = Math_max (Fin 1) (Math_floor (js_mul (num (int n)) (rnd (3 / 10))))"

definition posAt :: "(nat \<Rightarrow> rat) \<Rightarrow> nat \<Rightarrow> nat \<Rightarrow> jsnum" where
  \<comment> \<open>\<open>Math.floor(Math.random() * chars.length)\<close> at the \<open>k\<close>-th value of the random source\<close>
  "posAt rng n k = Math_floor (js_mul (Fin (rng k)) (num (int n)))"

partial_function (option) maskLoop ::
  "(nat \<Rightarrow> rat) \<Rightarrow> nat \<Rightarrow> jsnum \<Rightarrow> jsnum list \<Rightarrow> nat \<Rightarrow> (jsnum list \<times> nat) option" where
  "maskLoop rng n revealCount revealed k =
     (if js_lt (num (int (length revealed))) revealCount
      then maskLoop rng n revealCount
             (if posAt rng n k \<in> set revealed then revealed else revealed @ [posAt rng n k])
             (k + 1)
      else Some (revealed, k))"

definition renderMask :: "string \<Rightarrow> jsnum list \<Rightarrow> string" where
  \<comment> \<open>\<open>chars.map((c, i) => revealed.includes(i) ? c : '_').join(' ')\<close>\<close>
  "renderMask w revealed =
     joinWith '' '' (map (\<lambda>(c, i). if num (int i) \<in> set revealed then [c] else ''_'')
                       (zip w [0..<length w]))"

definition maskWord :: "string \<Rightarrow> server \<Rightarrow> (string \<times> server) option" where
  \<comment> \<open>\<open>None\<close>: the \<open>while\<close> loop never ends on this random source\<close>
  "maskWord w s =
     (if w = [] then Some ([], s)
      else case maskLoop (random s) (length w) (revealCountOf (length w)) [Fin 0] (drawn s) of
             None \<Rightarrow> None
           | Some (revealed, k) \<Rightarrow> Some (renderMask w revealed, s\<lparr>drawn := k\<rparr>))"

definition isWordLocked :: "int \<Rightarrow> string \<Rightarrow> server \<Rightarrow> bool" where
  "isWordLocked now w s =
     (case activeWords s (toLowerCase w) of
        None \<Rightarrow> False
      | Some entry \<Rightarrow> now - timestamp entry < WORD_LOCK_TIME)"

definition releaseWord :: "string \<Rightarrow> server \<Rightarrow> server" where
  "releaseWord w s = s\<lparr>activeWords := (activeWords s)(toLowerCase w := None)\<rparr>"

section \<open>The server: helpers and handlers\<close>

definition calculateHint :: "string \<Rightarrow> int \<Rightarrow> int \<Rightarrow> string" where
  "calculateHint w timeElapsed rt =
     (let progress = js_div (num timeElapsed) (num rt)
      in if js_lt progress (rnd (3 / 10)) then []
         else if js_lt progress (rnd (6 / 10)) then
           ''It has '' @ showNat (length w) @ '' letters''
         else if js_lt progress (rnd (8 / 10)) then ''Starts with: '' @ charOrUndefined w 0
         else ''Starts with: '' @ charOrUndefined w 0 @ ''...''
                @ charOrUndefined w (int (length w) - 1))"

definition calculateScore :: "jsnum \<Rightarrow> jsnum \<Rightarrow> jsnum" where
  "calculateScore timeLeft rt = Math_floor (js_mul (Fin 100) (js_div timeLeft rt))"

definition chars :: string where
  "chars = ''ABCDEFGHJKLMNPQRSTUVWXYZ''"

fun codeLoop :: "nat \<Rightarrow> string \<Rightarrow> server \<Rightarrow> string \<times> server" where
  "codeLoop 0 code s = (code, s)"
| "codeLoop (Suc k) code s =
     (let (i, s1) = randomIndex (length chars) s in codeLoop k (code @ charAtNum chars i) s1)"

definition generateRoomCode :: "server \<Rightarrow> string \<times> server" where
  "generateRoomCode s = codeLoop 4 [] s"

definition createRoom :: "string \<Rightarrow> string \<Rightarrow> string \<Rightarrow> server \<Rightarrow> server" where
  "createRoom sid playerName av s =
     (let (roomCode, s1) = generateRoomCode s;
          player = \<lparr>mId = sid, mName = playerName, mIsHost = True, mAvatar = av\<rparr>;
          r = nextRef s1;
          s2 = s1\<lparr>heap := (heap s1)(r := \<lparr>roomPlayers = [player], host = sid, state = Lobby,
                        roomSettings = None, gameState = None, timerInterval = None\<rparr>),
                  nextRef := r + 1,
                  rooms := (rooms s1)(roomCode \<mapsto> r),
                  players := (players s1)(sid \<mapsto>
                     \<lparr>room = roomCode, name = playerName, isHost = True, avatar = av\<rparr>),
                  playerAvatars := (playerAvatars s1)(sid \<mapsto> av)\<rparr>
      in emit (IoTo roomCode) (PlayerUpdate [player]) (emit (Callback sid) (RoomCreated roomCode) s2))"

definition joinRoom :: "string \<Rightarrow> string \<Rightarrow> string \<Rightarrow> string \<Rightarrow> server \<Rightarrow> server" where
  \<comment> \<open>for an inherited name \<open>rooms[roomCode]\<close> is truthy and its \<open>state\<close> is \<open>undefined\<close>\<close>
  "joinRoom sid roomCode playerName av s =
     (case rooms s roomCode of
        None \<Rightarrow>
          if roomCode \<in> set objectPrototypeKeys then
            emit (Callback sid) (JoinError ''Game already started'') s
          else emit (Callback sid) (JoinError ''Room not found'') s
      | Some r \<Rightarrow>
          if state (heap s r) \<noteq> Lobby then
            emit (Callback sid) (JoinError ''Game already started'') s
          else if length (roomPlayers (heap s r)) \<ge> 8 then
            emit (Callback sid) (JoinError ''Room is full'') s
          else
            (let player = \<lparr>mId = sid, mName = playerName, mIsHost = False, mAvatar = av\<rparr>;
                 ps = roomPlayers (heap s r) @ [player];
                 s1 = s\<lparr>heap := (heap s)(r := (heap s r)\<lparr>roomPlayers := ps\<rparr>),
                        players := (players s)(sid \<mapsto>
                           \<lparr>room = roomCode, name = playerName, isHost = False, avatar = av\<rparr>),
                        playerAvatars := (playerAvatars s)(sid \<mapsto> av)\<rparr>
             in emit (Callback sid) (JoinSuccess ps) (emit (IoTo roomCode) (PlayerUpdate ps) s1)))"

definition updateAvatar :: "string \<Rightarrow> string \<Rightarrow> server \<Rightarrow> server" where
  "updateAvatar sid av s =
     (case players s sid of
        None \<Rightarrow> s
      | Some p \<Rightarrow>
          (let s1 = s\<lparr>playerAvatars := (playerAvatars s)(sid \<mapsto> av),
                      players := (players s)(sid \<mapsto> p\<lparr>avatar := av\<rparr>)\<rparr>
           in (case rooms s1 (room p) of
                 None \<Rightarrow> s1
               | Some r \<Rightarrow>
                   (case find (\<lambda>m. mId m = sid) (roomPlayers (heap s1 r)) of
                      None \<Rightarrow> s1
                    | Some m0 \<Rightarrow>
                        (let i = length (takeWhile (\<lambda>m. mId m \<noteq> sid) (roomPlayers (heap s1 r)));
                             ps = (roomPlayers (heap s1 r))[i := m0\<lparr>mAvatar := av\<rparr>]
                         in emit (IoTo (room p)) (PlayerUpdate ps)
                              (setRoom r ((heap s1 r)\<lparr>roomPlayers := ps\<rparr>) s1))))))"

definition endGame :: "string \<Rightarrow> server \<Rightarrow> error + server" where
  "endGame roomCode s =
     (case rooms s roomCode of
        None \<Rightarrow> Inr s
      | Some r \<Rightarrow>
          (let rm = heap s r; s1 = setRoom r (rm\<lparr>state := Ended\<rparr>) s
           in (case gameState rm of
                 None \<Rightarrow> Inl TypeError
               | Some gs \<Rightarrow>
                   Inr (emit (IoTo roomCode)
                          (GameEnded (scores gs)
                             (map (\<lambda>p. (mId p, mName p, mAvatar p, orZero (map_of (scores gs) (mId p))))
                                (roomPlayers rm)))
                          s1))))"

definition startRound :: "int \<Rightarrow> string \<Rightarrow> server \<Rightarrow> error + server" where
  "startRound now roomCode s =
     (case rooms s roomCode of
        None \<Rightarrow> Inr s
      | Some r \<Rightarrow>
          (let rm = heap s r;
               previousDrawer = (case gameState rm of None \<Rightarrow> None | Some g \<Rightarrow> currentDrawer g);
               eligiblePlayers = filter (\<lambda>p. Some (mId p) \<noteq> previousDrawer) (roomPlayers rm);
               (i, s1) = randomIndex (length eligiblePlayers) s
           in (case nthNum eligiblePlayers i of
                 None \<Rightarrow> Inl TypeError
               | Some drawer \<Rightarrow>
                   (case gameState rm of
                      None \<Rightarrow> Inl TypeError
                    | Some gs \<Rightarrow>
                        (case getRandomWord now (difficulty gs) s1 of
                           Inl e \<Rightarrow> Inl e
                         | Inr (w, s2) \<Rightarrow>
                             (let gs1 = gs\<lparr>currentDrawer := Some (mId drawer),
                                           currentDrawerName := mName drawer,
                                           currentDrawerAvatar := mAvatar drawer,
                                           word := w,
                                           playersWhoGuessed := [],
                                           drawing := None,
                                           timer := roundTime gs,
                                           hint := []\<rparr>;
                                  (h, s3) = setTimer (now + 1000) (Tick r roomCode) s2;
                                  s4 = setRoom r (rm\<lparr>gameState := Some gs1,
                                                     timerInterval := Some h\<rparr>) s3
                              in Inr (emit (IoTo (mId drawer)) (WordUpdate w)
                                       (emit (IoTo roomCode)
                                          (RoundStarted (mId drawer) (mName drawer) (mAvatar drawer)
                                             (currentRound gs1) (rounds gs1) (roundTime gs1))
                                          s4))))))))"

definition startGame :: "int \<Rightarrow> string \<Rightarrow> settings \<Rightarrow> server \<Rightarrow> error + server" where
  \<comment> \<open>the fields of the new \<open>gameState\<close> that the handler leaves undefined are written by
      \<open>startRound\<close> before anything reads them, except \<open>currentDrawer\<close>\<close>
  "startGame now sid st s =
     (case players s sid of
        None \<Rightarrow> Inr s
      | Some player \<Rightarrow>
          if \<not> isHost player then Inr s
          else (case rooms s (room player) of
                  None \<Rightarrow> Inr s
                | Some r \<Rightarrow>
                    if state (heap s r) \<noteq> Lobby then Inr s
                    else
                      (let rm = heap s r;
                           gs = \<lparr>rounds = sRounds st, currentRound = 1,
                                 roundTime = sRoundTime st, difficulty = sDifficulty st,
                                 scores = [], playersWhoGuessed = [],
                                 allPlayers = map mId (roomPlayers rm),
                                 avatars = fold (\<lambda>p acc. assign (mId p) (mAvatar p) acc)
                                             (roomPlayers rm) [],
                                 currentDrawer = None, currentDrawerName = [],
                                 currentDrawerAvatar = [], word = [], drawing = None,
                                 timer = 0, hint = []\<rparr>
                       in startRound now (room player)
                            (setRoom r (rm\<lparr>state := Playing, roomSettings := Some st,
                                           gameState := Some gs\<rparr>) s))))"

definition endRound :: "int \<Rightarrow> string \<Rightarrow> server \<Rightarrow> error + server" where
  "endRound now roomCode s =
     (case rooms s roomCode of
        None \<Rightarrow> Inr s
      | Some r \<Rightarrow>
          (let rm = heap s r; s1 = clearInterval (timerInterval rm) s
           in (case gameState rm of
                 None \<Rightarrow> Inl TypeError
               | Some gs \<Rightarrow>
                   (let s2 = releaseWord (word gs) s1
                    in if currentRound gs \<ge> rounds gs then endGame roomCode s2
                       else
                         (let s3 = setRoom r (rm\<lparr>gameState :=
                                      Some (gs\<lparr>currentRound := currentRound gs + 1\<rparr>)\<rparr>) s2;
                              s4 = emit (IoTo roomCode) (RoundEnded (scores gs) 3000) s3
                          in Inr (snd (setTimer (now + 3000) (StartRound roomCode) s4)))))))"

definition tick :: "int \<Rightarrow> nat \<Rightarrow> string \<Rightarrow> server \<Rightarrow> error + server" where
  \<comment> \<open>the callback of the round's interval; \<open>r\<close> is the room object of its closure\<close>
  "tick now r roomCode s =
     (case gameState (heap s r) of
        None \<Rightarrow> Inl TypeError
      | Some gs \<Rightarrow>
          (let gs1 = gs\<lparr>timer := timer gs - 1\<rparr>;
               newHint = calculateHint (word gs1) (roundTime gs1 - timer gs1) (roundTime gs1);
               gs2 = (if newHint \<noteq> hint gs1 then gs1\<lparr>hint := newHint\<rparr> else gs1);
               s1 = setRoom r ((heap s r)\<lparr>gameState := Some gs2\<rparr>) s;
               s2 = (if newHint \<noteq> hint gs1 then emit (IoTo roomCode) (HintMsg newHint) s1 else s1);
               s3 = emit (IoTo roomCode) (TimerUpdate (timer gs2)) s2
           in if timer gs2 \<le> 0 then
                endRound now roomCode (clearInterval (timerInterval (heap s3 r)) s3)
              else Inr s3))"

definition drawingEv :: "string \<Rightarrow> string \<Rightarrow> server \<Rightarrow> error + server" where
  "drawingEv sid data s =
     (case players s sid of
        None \<Rightarrow> Inr s
      | Some player \<Rightarrow>
          (case rooms s (room player) of
             None \<Rightarrow> Inr s
           | Some r \<Rightarrow>
               if state (heap s r) \<noteq> Playing then Inr s
               else (case gameState (heap s r) of
                       None \<Rightarrow> Inl TypeError
                     | Some gs \<Rightarrow>
                         if Some sid \<noteq> currentDrawer gs then Inr s
                         else Inr (emit (SocketTo sid (room player)) (DrawingMsg data)
                                (setRoom r ((heap s r)\<lparr>gameState :=
                                   Some (gs\<lparr>drawing := Some data\<rparr>)\<rparr>) s)))))"

definition clearCanvas :: "string \<Rightarrow> server \<Rightarrow> error + server" where
  "clearCanvas sid s =
     (case players s sid of
        None \<Rightarrow> Inr s
      | Some player \<Rightarrow>
          (case rooms s (room player) of
             None \<Rightarrow> Inr s
           | Some r \<Rightarrow>
               if state (heap s r) \<noteq> Playing then Inr s
               else (case gameState (heap s r) of
                       None \<Rightarrow> Inl TypeError
                     | Some gs \<Rightarrow>
                         if Some sid \<noteq> currentDrawer gs then Inr s
                         else Inr (emit (IoTo (room player)) ClearCanvasMsg s))))"

definition correctGuess ::
  "int \<Rightarrow> string \<Rightarrow> playerRec \<Rightarrow> nat \<Rightarrow> gameState \<Rightarrow> server \<Rightarrow> error + server" where
  \<comment> \<open>the branch \<open>guessLower === wordLower\<close> of the \<open>submitGuess\<close> handler\<close>
  "correctGuess now sid player r gs s =
     (let roomCode = room player;
          score = calculateScore (num (timer gs)) (num (roundTime gs));
          sc1 = assign sid (js_add (orZero (map_of (scores gs) sid)) score) (scores gs);
          drawerScore = Math_floor (js_mul score (rnd (1 / 2)));
          sc2 = (case currentDrawer gs of
                   None \<Rightarrow> assign ''undefined'' (js_add (orZero (map_of sc1 ''undefined'')) drawerScore) sc1
                 | Some d \<Rightarrow> assign d (js_add (orZero (map_of sc1 d)) drawerScore) sc1);
          gs1 = gs\<lparr>scores := sc2, playersWhoGuessed := playersWhoGuessed gs @ [sid]\<rparr>;
          s1 = setRoom r ((heap s r)\<lparr>gameState := Some gs1\<rparr>) s
      in (case (if length (roomPlayers (heap s1 r)) > 2 then maskWord (word gs1) s1
                else Some (word gs1, s1)) of
            None \<Rightarrow> Inl NoReturn
          | Some (maskedGuess, s2) \<Rightarrow>
              (let s3 = emit (IoTo sid) (CorrectGuess (name player) (word gs1) True score) s2;
                   s4 = emit (SocketTo sid roomCode)
                          (CorrectGuess (name player) maskedGuess False score) s3;
                   allGuessed = list_all (\<lambda>i. Some i = currentDrawer gs1
                                   \<or> i \<in> set (playersWhoGuessed gs1)) (allPlayers gs1)
               in if allGuessed then
                    Inr (snd (setTimer (now + 2000) (EndRound roomCode)
                                (clearInterval (timerInterval (heap s4 r)) s4)))
                  else Inr s4)))"

definition submitGuess :: "int \<Rightarrow> string \<Rightarrow> string \<Rightarrow> server \<Rightarrow> error + server" where
  "submitGuess now sid g s =
     (case players s sid of
        None \<Rightarrow> Inr s
      | Some player \<Rightarrow>
          (let (cooldownCheck, ac) = checkCooldown now sid Guess (guard s);
               s0 = s\<lparr>guard := ac\<rparr>
           in if \<not> allowed cooldownCheck then Inr s0
              else (case rooms s0 (room player) of
                      None \<Rightarrow> Inr s0
                    | Some r \<Rightarrow>
                        if state (heap s0 r) \<noteq> Playing then Inr s0
                        else (case gameState (heap s0 r) of
                                None \<Rightarrow> Inl TypeError
                              | Some gs \<Rightarrow>
                                  if Some sid = currentDrawer gs then Inr s0
                                  else if sid \<in> set (playersWhoGuessed gs) then Inr s0
                                  else if toLowerCase g = toLowerCase (word gs) then
                                    correctGuess now sid player r gs s0
                                  else
                                    Inr (emit (IoTo (room player))
                                           (GameMessage (name player) sid g now) s0)))))"

definition sendChatMessage :: "int \<Rightarrow> string \<Rightarrow> string \<Rightarrow> server \<Rightarrow> server" where
  "sendChatMessage now sid text s =
     (case players s sid of
        None \<Rightarrow> s
      | Some player \<Rightarrow>
          (let (cooldownCheck, ac) = checkCooldown now sid Message (guard s);
               s0 = s\<lparr>guard := ac\<rparr>
           in if \<not> allowed cooldownCheck then s0
              else emit (IoTo (room player))
                     (ChatMessage (name player) sid (avatar player) text now) s0))"

definition playAgain :: "string \<Rightarrow> server \<Rightarrow> server" where
  "playAgain sid s =
     (case players s sid of
        None \<Rightarrow> s
      | Some player \<Rightarrow>
          if \<not> isHost player then s
          else (case rooms s (room player) of
                  None \<Rightarrow> s
                | Some r \<Rightarrow>
                    if state (heap s r) \<noteq> Ended then s
                    else emit (IoTo (room player)) (LobbyRestarted (roomPlayers (heap s r)))
                           (setRoom r ((heap s r)\<lparr>state := Lobby, gameState := None\<rparr>) s)))"

definition transferHost :: "string \<Rightarrow> string \<Rightarrow> nat \<Rightarrow> server \<Rightarrow> error + server" where
  \<comment> \<open>the "Handle host transfer" block of the \<open>disconnect\<close> handler\<close>
  "transferHost sid roomCode r s =
     (if sid \<noteq> host (heap s r) then Inr s
      else (case roomPlayers (heap s r) of
              [] \<Rightarrow> Inl TypeError
            | newHost # _ \<Rightarrow>
                (let s1 = setRoom r ((heap s r)\<lparr>host := mId newHost\<rparr>) s
                 in (case players s1 (mId newHost) of
                       None \<Rightarrow> Inl TypeError
                     | Some p \<Rightarrow>
                         Inr (emit (IoTo roomCode) (NewHost (mId newHost))
                                (s1\<lparr>players := (players s1)(mId newHost \<mapsto> p\<lparr>isHost := True\<rparr>)\<rparr>))))))"

definition disconnect :: "int \<Rightarrow> string \<Rightarrow> server \<Rightarrow> error + server" where
  "disconnect now sid s =
     (case players s sid of
        None \<Rightarrow> Inr s
      | Some player \<Rightarrow>
          (case rooms s (room player) of
             None \<Rightarrow> Inr s
           | Some r \<Rightarrow>
               (let roomCode = room player;
                    ps = filter (\<lambda>p. mId p \<noteq> sid) (roomPlayers (heap s r));
                    s1 = setRoom r ((heap s r)\<lparr>roomPlayers := ps\<rparr>) s;
                    s2 = s1\<lparr>players := (players s1)(sid := None),
                            playerAvatars := (playerAvatars s1)(sid := None),
                            guard := resetSpamCounter sid (guard s1)\<rparr>
                in if length ps = 0 then Inr (s2\<lparr>rooms := (rooms s2)(roomCode := None)\<rparr>)
                   else (case transferHost sid roomCode r
                                (emit (IoTo roomCode) (PlayerUpdate ps) s2) of
                           Inl e \<Rightarrow> Inl e
                         | Inr s3 \<Rightarrow>
                             if state (heap s3 r) = Playing
                                \<and> (case gameState (heap s3 r) of
                                      None \<Rightarrow> False
                                    | Some gs \<Rightarrow> Some sid = currentDrawer gs)
                             then endRound now roomCode
                                    (clearInterval (timerInterval (heap s3 r)) s3)
                             else Inr s3))))"

definition fireTimer :: "int \<Rightarrow> nat \<Rightarrow> server \<Rightarrow> error + server" where
  \<comment> \<open>the event loop runs the callback of timer \<open>h\<close>: only when it is pending and due. A
      timeout is spent by running; an interval is armed again\<close>
  "fireTimer now h s =
     (case timers s h of
        None \<Rightarrow> Inr s
      | Some (due, t) \<Rightarrow>
          if now < due then Inr s
          else (case t of
                  Tick r roomCode \<Rightarrow>
                    tick now r roomCode (s\<lparr>timers := (timers s)(h \<mapsto> (now + 1000, t))\<rparr>)
                | EndRound roomCode \<Rightarrow>
                    endRound now roomCode (s\<lparr>timers := (timers s)(h := None)\<rparr>)
                | StartRound roomCode \<Rightarrow>
                    startRound now roomCode (s\<lparr>timers := (timers s)(h := None)\<rparr>)))"

datatype event =
    CreateRoom string string string
  | JoinRoom string string string string
  | UpdateAvatar string string
  | StartGame string settings
  | DrawingEv string string
  | ClearCanvas string
  | SubmitGuess string string
  | SendChatMessage string string
  | PlayAgain string
  | Disconnect string
  | TimerFires nat

fun step :: "int \<Rightarrow> event \<Rightarrow> server \<Rightarrow> error + server" where
  "step now (CreateRoom sid n av) s = Inr (createRoom sid n av s)"
| "step now (JoinRoom sid code n av) s = Inr (joinRoom sid code n av s)"
| "step now (UpdateAvatar sid av) s = Inr (updateAvatar sid av s)"
| "step now (StartGame sid st) s = startGame now sid st s"
| "step now (DrawingEv sid d) s = drawingEv sid d s"
| "step now (ClearCanvas sid) s = clearCanvas sid s"
| "step now (SubmitGuess sid g) s = submitGuess now sid g s"
| "step now (SendChatMessage sid t) s = Inr (sendChatMessage now sid t s)"
| "step now (PlayAgain sid) s = Inr (playAgain sid s)"
| "step now (Disconnect sid) s = disconnect now sid s"
| "step now (TimerFires h) s = fireTimer now h s"

text \<open>
  A run is the events in the order the event loop handles them, each with the time at which
  it is handled. An uncaught error ends the process.
\<close>

fun run :: "(int \<times> event) list \<Rightarrow> server \<Rightarrow> error + server" where
  "run [] s = Inr s"
| "run ((now, e) # es) s = (case step now e s of Inl err \<Rightarrow> Inl err | Inr s1 \<Rightarrow> run es s1)"

section \<open>Observations and fixtures used in the statements\<close>

definition lastAccepted :: "anticheat \<Rightarrow> string \<Rightarrow> kind \<Rightarrow> int" where
  \<comment> \<open>the per-kind timestamp of a player; a player without an entry gets \<open>0\<close> on first use\<close>
  "lastAccepted ac p k = (case cooldowns ac p of None \<Rightarrow> 0 | Some c \<Rightarrow> lastOf c k)"

definition burstCount :: "anticheat \<Rightarrow> string \<Rightarrow> int" where
  "burstCount ac p = (case spamCounts ac p of None \<Rightarrow> 0 | Some sp \<Rightarrow> count sp)"

definition windowExpired :: "int \<Rightarrow> anticheat \<Rightarrow> string \<Rightarrow> bool" where
  "windowExpired now ac p =
     (case spamCounts ac p of None \<Rightarrow> False | Some sp \<Rightarrow> now - lastReset sp > SPAM_WINDOW)"

definition dropped :: "string \<Rightarrow> playerRec \<Rightarrow> server \<Rightarrow> bool" where
  \<comment> \<open>the game-state reasons for which \<open>submitGuess\<close> returns without doing anything\<close>
  "dropped sid player s =
     (case rooms s (room player) of
        None \<Rightarrow> True
      | Some r \<Rightarrow>
          state (heap s r) \<noteq> Playing \<or>
          (case gameState (heap s r) of
             None \<Rightarrow> False
           | Some gs \<Rightarrow> Some sid = currentDrawer gs \<or> sid \<in> set (playersWhoGuessed gs)))"

definition demoWords :: "string \<rightharpoonup> string list" where
  "demoWords = [''easy'' \<mapsto> [''APPLE'', ''House'']]"

definition server0 :: server where
  \<comment> \<open>a server just started, whose random source returns \<open>0\<close> every time\<close>
  "server0 = initial demoWords (\<lambda>_. 0)"

definition ann :: playerRec where
  "ann = \<lparr>room = ''AAAA'', name = ''Ann'', isHost = True, avatar = ''cat''\<rparr>"

definition lobby1 :: server where
  \<comment> \<open>Ann has created a room\<close>
  "lobby1 = createRoom ''a'' ''Ann'' ''cat'' server0"

definition demoSettings :: settings where
  "demoSettings = \<lparr>sRounds = 3, sRoundTime = 60, sDifficulty = ''easy''\<rparr>"

definition doubleEnd :: "(int \<times> event) list" where
  \<comment> \<open>Ann and Bob play; Bob, the only guesser, guesses the word; Ann, the drawer, leaves
      during the two seconds of grace; then the grace timer fires\<close>
  "doubleEnd =
     [(5000, CreateRoom ''a'' ''Ann'' ''cat''),
      (6000, JoinRoom ''b'' ''AAAA'' ''Bob'' ''dog''),
      (8000, StartGame ''a'' demoSettings),
      (8500, SubmitGuess ''b'' ''apple''),
      (8800, Disconnect ''a''),
      (10500, TimerFires 1)]"

fun roundsEnded :: "(audience \<times> msg) list \<Rightarrow> nat" where
  \<comment> \<open>how many \<open>roundEnded\<close> messages were sent\<close>
  "roundsEnded [] = 0"
| "roundsEnded ((a, RoundEnded sc d) # ms) = Suc (roundsEnded ms)"
| "roundsEnded (m # ms) = roundsEnded ms"

fun roundsStarted :: "(audience \<times> msg) list \<Rightarrow> int list" where
  \<comment> \<open>the round numbers of the \<open>roundStarted\<close> messages, in order\<close>
  "roundsStarted [] = []"
| "roundsStarted ((a, RoundStarted d n av k tot t) # ms) = k # roundsStarted ms"
| "roundsStarted (m # ms) = roundsStarted ms"
definition slowGuess :: "(int \<times> event) list" where
  \<comment> \<open>a round of 100 seconds; Bob guesses the word when 58 seconds are left\<close>
  "slowGuess =
     [(5000, CreateRoom ''a'' ''Ann'' ''cat''),
      (6000, JoinRoom ''b'' ''AAAA'' ''Bob'' ''dog''),
      (8000, StartGame ''a'' \<lparr>sRounds = 3, sRoundTime = 100, sDifficulty = ''easy''\<rparr>)]
     @ map (\<lambda>k. (8000 + 1000 * k, TimerFires 0)) [1..42]
     @ [(50500, SubmitGuess ''b'' ''apple'')]"
definition lastLeaves :: "(int \<times> event) list" where
  \<comment> \<open>Ann and Bob play; after the first tick of round 1 Bob leaves, then Ann\<close>
  "lastLeaves =
     [(5000, CreateRoom ''a'' ''Ann'' ''cat''),
      (6000, JoinRoom ''b'' ''AAAA'' ''Bob'' ''dog''),
      (8000, StartGame ''a'' demoSettings),
      (9000, TimerFires 0),
      (9200, Disconnect ''b''),
      (9500, Disconnect ''a'')]"

definition hits :: "(nat \<Rightarrow> rat) \<Rightarrow> nat \<Rightarrow> nat \<Rightarrow> nat \<Rightarrow> jsnum set" where
  \<comment> \<open>the positions that \<open>maskWord\<close> has in \<open>revealed\<close> for a word of \<open>n\<close> letters once it has
      consumed the values \<open>k, \<dots>, j - 1\<close> of the random source\<close>
  "hits rng n k j = insert (Fin 0) (posAt rng n ` {k..<j})"

definition lettersShown :: "string \<Rightarrow> jsnum list \<Rightarrow> nat list" where
  \<comment> \<open>the indices whose letter the rendering shows\<close>
  "lettersShown w revealed = filter (\<lambda>i. num (int i) \<in> set revealed) [0..<length w]"

definition dice :: "nat \<Rightarrow> rat" where
  \<comment> \<open>a random source whose first four values are \<open>0\<close> and all later ones \<open>1/2\<close>\<close>
  "dice n = (if n < 4 then 0 else 1 / 2)"

definition longWords :: "string \<rightharpoonup> string list" where
  "longWords = [''easy'' \<mapsto> [''Elephant'']]"

definition trio :: server where
  \<comment> \<open>Ann, Bob and Cy in round 1, on the random source \<open>dice\<close>; Bob draws \<open>Elephant\<close>\<close>
  "trio = projr (run [(5000, CreateRoom ''a'' ''Ann'' ''cat''),
                      (6000, JoinRoom ''b'' ''AAAA'' ''Bob'' ''dog''),
                      (6500, JoinRoom ''c'' ''AAAA'' ''Cy'' ''fox''),
                      (8000, StartGame ''a'' demoSettings)] (initial longWords dice))"

definition cy :: playerRec where
  "cy = \<lparr>room = ''AAAA'', name = ''Cy'', isHost = False, avatar = ''fox''\<rparr>"

definition bob :: playerRec where
  "bob = \<lparr>room = ''AAAA'', name = ''Bob'', isHost = False, avatar = ''dog''\<rparr>"

fun correctGuesses :: "(audience \<times> msg) list \<Rightarrow> (audience \<times> string \<times> bool) list" where
  \<comment> \<open>the \<open>correctGuess\<close> messages sent: to whom, the \<open>guess\<close> field, the \<open>isYou\<close> field\<close>
  "correctGuesses [] = []"
| "correctGuesses ((a, CorrectGuess p g you sc) # ms) = (a, g, you) # correctGuesses ms"
| "correctGuesses (m # ms) = correctGuesses ms"

definition memberIds :: "server \<Rightarrow> nat \<Rightarrow> string list" where
  \<comment> \<open>the ids in the \<open>players\<close> list of a room object\<close>
  "memberIds s r = map mId (roomPlayers (heap s r))"




definition view :: "server \<Rightarrow> (string \<rightharpoonup> nat) \<times> nat \<times> (nat \<Rightarrow> string list) \<times> (string \<rightharpoonup> string)" where
  \<comment> \<open>what \<open>membership\<close> looks at\<close>
  "view s = (rooms s, nextRef s, memberIds s, \<lambda>sid. map_option room (players s sid))"


section \<open>Properties\<close>

lemmas ac_defs = checkCooldown_def Let_def LAST_GUESS_TIMEOUT_def SPAM_LIMIT_def SPAM_WINDOW_def

lemmas ev_defs = createRoom_def generateRoomCode_def randomIndex_def chars_def charAt_def
  charAtNum_def nthNum_def
  nthOpt_def emit_def initial_def Let_def noGuard_def blankRoom_def setRoom_def
  joinRoom_def setTimer_def clearInterval_def server0_def demoWords_def

subsection \<open>Rounding\<close>

lemma pow2_powi: "pow2 e = 2 powi e"
  by (simp add: pow2_def power_int_def power_one_over inverse_eq_divide)

lemma pow2_pos [simp]: "0 < pow2 e"
  by (simp add: pow2_powi)

lemma pow2_nonneg [simp]: "0 \<le> pow2 e"
  using pow2_pos [of e] by linarith

lemma pow2_neq0 [simp]: "pow2 e \<noteq> 0"
  using pow2_pos [of e] by linarith

lemma pow2_add: "pow2 (a + b) = pow2 a * pow2 b"
  by (simp add: pow2_powi power_int_add)

lemma pow2_mono: "a \<le> b \<Longrightarrow> pow2 a \<le> pow2 b"
  by (simp add: pow2_powi power_int_increasing)

lemma pow2_strict_mono: "a < b \<Longrightarrow> pow2 a < pow2 b"
  by (simp add: pow2_powi power_int_strict_increasing)

lemma pow2_less_cancel: "pow2 a < pow2 b \<Longrightarrow> a < b"
  using pow2_mono [of b a] by (cases "a < b") auto

lemma pow2_nat: "0 \<le> e \<Longrightarrow> pow2 e = 2 ^ nat e"
  by (simp add: pow2_def)

lemma pow2_neg: "pow2 (- e) = 1 / pow2 e"
  by (simp add: pow2_powi power_int_minus_divide)

lemma ilog2_bounds:
  assumes "0 < q"
  shows "pow2 (ilog2 q) \<le> q \<and> q < pow2 (ilog2 q + 1)"
proof (cases "1 \<le> q")
  case True
  let ?f = "\<lfloor>q\<rfloor>"
  have f: "0 < ?f" using True by linarith
  from bitlen_bounds [OF f] have b: "2 ^ nat (bitlen ?f - 1) \<le> ?f" "?f < 2 ^ nat (bitlen ?f)"
    by auto
  have b1: "1 \<le> bitlen ?f" using f by (simp add: bitlen_alt_def)
  have "pow2 (bitlen ?f - 1) = of_int (2 ^ nat (bitlen ?f - 1))"
    using b1 by (simp add: pow2_nat)
  also have "\<dots> \<le> of_int ?f" using b(1) by (simp only: of_int_le_iff)
  also have "\<dots> \<le> q" by simp
  finally have lo: "pow2 (bitlen ?f - 1) \<le> q" .
  have "?f + 1 \<le> 2 ^ nat (bitlen ?f)" using b(2) by simp
  then have "(of_int (?f + 1) :: rat) \<le> of_int (2 ^ nat (bitlen ?f))"
    by (simp only: of_int_le_iff)
  moreover have "q < of_int (?f + 1)" by linarith
  ultimately have "q < of_int (2 ^ nat (bitlen ?f))" by linarith
  then have hi: "q < pow2 (bitlen ?f)" using b1 by (simp add: pow2_nat)
  show ?thesis using True lo hi by (simp add: ilog2_def)
next
  case False
  let ?c = "\<lceil>1 / q\<rceil>"
  let ?d = "?c - 1"
  have q1: "1 < 1 / q" using False assms by (simp add: field_simps)
  have d: "0 < ?d" using q1 by linarith
  from bitlen_bounds [OF d] have b: "2 ^ nat (bitlen ?d - 1) \<le> ?d" "?d < 2 ^ nat (bitlen ?d)"
    by auto
  have b1: "1 \<le> bitlen ?d" using d by (simp add: bitlen_alt_def)
  have dq: "of_int ?d < 1 / q" "1 / q \<le> of_int ?c" by linarith+
  have "?c \<le> 2 ^ nat (bitlen ?d)" using b(2) by simp
  then have "(of_int ?c :: rat) \<le> 2 ^ nat (bitlen ?d)" by simp
  with dq(2) have "1 / q \<le> 2 ^ nat (bitlen ?d)" by linarith
  then have "1 / q \<le> pow2 (bitlen ?d)" using b1 by (simp add: pow2_nat)
  then have lo: "pow2 (- bitlen ?d) \<le> q"
    using assms by (simp add: pow2_neg field_simps)
  have "(of_int (2 ^ nat (bitlen ?d - 1)) :: rat) \<le> of_int ?d"
    using b(1) by (simp only: of_int_le_iff)
  then have "(2 ^ nat (bitlen ?d - 1) :: rat) \<le> of_int ?d"
    by (simp only: of_int_power of_int_numeral)
  with dq(1) have "2 ^ nat (bitlen ?d - 1) < 1 / q" by linarith
  then have "pow2 (bitlen ?d - 1) < 1 / q" using b1 by (simp add: pow2_nat)
  then have "q < 1 / pow2 (bitlen ?d - 1)"
    using assms by (simp add: field_simps)
  then have hi: "q < pow2 (- bitlen ?d + 1)"
    using pow2_neg [of "bitlen ?d - 1"] by simp
  show ?thesis using False lo hi by (simp add: ilog2_def)
qed

lemma ilog2_unique:
  assumes "0 < q" "pow2 k \<le> q" "q < pow2 (k + 1)"
  shows "ilog2 q = k"
proof -
  from ilog2_bounds [OF assms(1)] have b: "pow2 (ilog2 q) \<le> q" "q < pow2 (ilog2 q + 1)"
    by blast+
  have "pow2 (ilog2 q) < pow2 (k + 1)" using b(1) assms(3) by linarith
  then have "ilog2 q < k + 1" by (rule pow2_less_cancel)
  moreover have "pow2 k < pow2 (ilog2 q + 1)" using b(2) assms(2) by linarith
  then have "k < ilog2 q + 1" by (rule pow2_less_cancel)
  ultimately show ?thesis by simp
qed

lemma roundEven_bounds:
  "of_int (roundEven y) \<le> y + 1 / 2 \<and> y - 1 / 2 \<le> of_int (roundEven y)"
proof -
  have "of_int \<lfloor>y\<rfloor> \<le> y" "y < of_int \<lfloor>y\<rfloor> + 1" by linarith+
  then show ?thesis
    by (auto simp: roundEven_def Let_def) linarith+
qed

lemma roundEven_int [simp]: "roundEven (of_int k) = k"
  by (simp add: roundEven_def)

lemma roundEven_nonneg: "0 \<le> y \<Longrightarrow> 0 \<le> roundEven y"
proof -
  assume "0 \<le> y"
  then have "0 \<le> \<lfloor>y\<rfloor>" by simp
  then show ?thesis by (auto simp: roundEven_def Let_def)
qed

lemma rnd_upper:
  assumes "0 < x" "x < pow2 53"
  shows "\<exists>v. rnd x = Fin v \<and> 0 \<le> v \<and> v \<le> x + pow2 (max (ilog2 x - 52) (- 1074) - 1)"
proof -
  let ?e = "max (ilog2 x - 52) (- 1074)"
  let ?m = "roundEven (x / pow2 ?e)"
  from ilog2_bounds [OF assms(1)] assms(2) have "pow2 (ilog2 x) < pow2 53" by linarith
  then have E: "ilog2 x < 53" by (rule pow2_less_cancel)
  then have e: "?e \<le> 0" by simp
  have r: "rnd x = Fin (of_int ?m * pow2 ?e)"
    using assms(1) e by (auto simp: rnd_def Let_def)
  have m0: "0 \<le> ?m" using assms(1) by (intro roundEven_nonneg) simp
  have "of_int ?m \<le> x / pow2 ?e + 1 / 2" using roundEven_bounds by blast
  then have "of_int ?m * pow2 ?e \<le> (x / pow2 ?e + 1 / 2) * pow2 ?e"
    by (intro mult_right_mono) simp_all
  also have "\<dots> = x + pow2 ?e / 2" by (simp add: field_simps)
  also have "pow2 ?e / 2 = pow2 (?e - 1)"
    using pow2_add [of ?e "- 1"] by (simp add: pow2_def)
  finally have "of_int ?m * pow2 ?e \<le> x + pow2 (?e - 1)" .
  moreover have "0 \<le> of_int ?m * pow2 ?e" using m0 by simp
  ultimately show ?thesis using r by blast
qed

lemma num_exact:
  assumes "0 \<le> n" "n < 2 ^ 53"
  shows "num n = Fin (of_int n)"
proof (cases "n = 0")
  case True
  then show ?thesis by (simp add: num_def rnd_def)
next
  case False
  let ?x = "of_int n :: rat"
  have x: "0 < ?x" "1 \<le> ?x" using False assms by simp_all
  have "?x < of_int (2 ^ 53)" using assms(2) by (simp only: of_int_less_iff)
  then have x53: "?x < pow2 53" by (simp add: pow2_def)
  from ilog2_bounds [OF x(1)] have b: "pow2 (ilog2 ?x) \<le> ?x" "?x < pow2 (ilog2 ?x + 1)"
    by blast+
  have "pow2 (ilog2 ?x) < pow2 53" using b(1) x53 by linarith
  then have E1: "ilog2 ?x < 53" by (rule pow2_less_cancel)
  have "pow2 0 < pow2 (ilog2 ?x + 1)" using b(2) x(2) by (simp add: pow2_def)
  then have E0: "0 \<le> ilog2 ?x" using pow2_less_cancel by fastforce
  let ?e = "max (ilog2 ?x - 52) (- 1074)"
  have e: "?e = ilog2 ?x - 52" "?e \<le> 0" using E0 E1 by simp_all
  have "?x / pow2 ?e = ?x * pow2 (- ?e)" by (simp add: pow2_neg)
  also have "\<dots> = ?x * 2 ^ nat (- ?e)" using e(2) by (simp add: pow2_nat)
  also have "\<dots> = of_int (n * 2 ^ nat (- ?e))" by simp
  finally have q: "?x / pow2 ?e = of_int (n * 2 ^ nat (- ?e))" .
  have "of_int (roundEven (?x / pow2 ?e)) * pow2 ?e = ?x / pow2 ?e * pow2 ?e"
    unfolding q by (simp only: roundEven_int)
  also have "\<dots> = ?x" by simp
  finally have v: "of_int (roundEven (?x / pow2 ?e)) * pow2 ?e = ?x" .
  show ?thesis
    using x(1) e(2) v by (auto simp: num_def rnd_def Let_def)
qed

lemma unitDouble_below:
  assumes "unitDouble q"
  shows "q \<le> 1 - 1 / 2 ^ 53"
proof (cases "q < 1 / 2")
  case True
  then show ?thesis by simp
next
  case False
  from assms have q: "0 \<le> q" "q < 1" "rnd q = Fin q" by (simp_all add: unitDouble_def)
  have q0: "0 < q" using False by simp
  have "ilog2 q = - 1"
    using False q(2) by (intro ilog2_unique [OF q0]) (simp_all add: pow2_def)
  then have e: "max (ilog2 q - 52) (- 1074) = - 53" by simp
  let ?m = "roundEven (q / pow2 (- 53))"
  have "rnd q = Fin (of_int ?m * pow2 (- 53))"
    using q0 e by (auto simp: rnd_def Let_def)
  with q(3) have eq: "q = of_int ?m * pow2 (- 53)" by simp
  have p: "pow2 (- 53) = 1 / 2 ^ 53" by (simp add: pow2_def)
  from eq q(2) have "of_int ?m < (2 ^ 53 :: rat)" by (simp add: p field_simps)
  then have "(of_int ?m :: rat) < of_int (2 ^ 53)" by simp
  then have "?m < 2 ^ 53" by (simp only: of_int_less_iff)
  then have "?m \<le> 2 ^ 53 - 1" by simp
  then have "(of_int ?m :: rat) \<le> of_int (2 ^ 53 - 1)" by (simp only: of_int_le_iff)
  then have "of_int ?m * pow2 (- 53) \<le> of_int (2 ^ 53 - 1) * pow2 (- 53)"
    by (intro mult_right_mono) simp_all
  then show ?thesis using eq by (simp add: p field_simps)
qed

lemma unit_times_range:
  assumes u: "unitDouble q" and n: "0 < n" "n < 2 ^ 53"
  shows "\<exists>v. js_mul (Fin q) (num n) = Fin v \<and> 0 \<le> v \<and> v < of_int n"
proof (cases "q = 0")
  case True
  then show ?thesis using n by (simp add: num_exact rnd_def)
next
  case False
  from u have q: "0 \<le> q" "q < 1" by (simp_all add: unitDouble_def)
  let ?n = "of_int n :: rat"
  let ?x = "q * ?n"
  have n0: "0 < ?n" "1 \<le> ?n" using n by simp_all
  have x0: "0 < ?x" using False q n0 by simp
  have xn: "?x < ?n" using q n0 by simp
  have "?n < of_int (2 ^ 53)" using n(2) by (simp only: of_int_less_iff)
  then have n53: "?n < pow2 53" by (simp add: pow2_def)
  have x53: "?x < pow2 53" using xn n53 by linarith
  let ?E = "ilog2 ?x"
  let ?e = "max (?E - 52) (- 1074)"
  from rnd_upper [OF x0 x53] obtain v where
    v: "rnd ?x = Fin v" "0 \<le> v" "v \<le> ?x + pow2 (?e - 1)" by blast
  have gap: "?n / 2 ^ 53 \<le> ?n - ?x"
  proof -
    have "?x \<le> (1 - 1 / 2 ^ 53) * ?n"
      using unitDouble_below [OF u] n0 by (intro mult_right_mono) simp_all
    then show ?thesis by (simp add: field_simps)
  qed
  have "pow2 (?E - 53) = pow2 ?E * pow2 (- 53)" using pow2_add [of ?E "- 53"] by simp
  also have "\<dots> \<le> ?x * pow2 (- 53)"
    using ilog2_bounds [OF x0] by (intro mult_right_mono) simp_all
  also have "\<dots> < ?n * pow2 (- 53)" using xn by (intro mult_strict_right_mono) simp_all
  also have "\<dots> = ?n / 2 ^ 53" by (simp add: pow2_def)
  finally have a: "pow2 (?E - 53) < ?n / 2 ^ 53" .
  have "pow2 (- 1075) < pow2 (- 53)" by (intro pow2_strict_mono) simp
  also have "\<dots> = 1 / 2 ^ 53" by (simp add: pow2_def)
  also have "\<dots> \<le> ?n / 2 ^ 53" using n0 by (simp add: field_simps)
  finally have b: "pow2 (- 1075) < ?n / 2 ^ 53" .
  have "pow2 (?e - 1) < ?n / 2 ^ 53"
  proof (cases "?E - 52 \<le> - 1074")
    case True
    then have "?e - 1 = - 1075" by simp
    with b show ?thesis by simp
  next
    case False
    then have "?e - 1 = ?E - 53" by simp
    with a show ?thesis by simp
  qed
  with gap v(3) have "v < ?n" by linarith
  moreover have "js_mul (Fin q) (num n) = Fin v"
    using v(1) n by (simp add: num_exact)
  ultimately show ?thesis using v(2) by blast
qed

lemma index_range:
  assumes "unitDouble q" "0 < n" "n < 2 ^ 53"
  shows "\<exists>i. Math_floor (js_mul (Fin q) (num n)) = Fin (of_int i) \<and> 0 \<le> i \<and> i < n"
proof -
  from unit_times_range [OF assms] obtain v where
    v: "js_mul (Fin q) (num n) = Fin v" "0 \<le> v" "v < of_int n" by blast
  have "0 \<le> \<lfloor>v\<rfloor>" using v(2) by simp
  moreover have "\<lfloor>v\<rfloor> < n" using v(3) by (simp add: floor_less_iff)
  ultimately show ?thesis using v(1) by simp
qed

lemma rnd_0 [simp]: "rnd 0 = Fin 0"
  by (simp add: rnd_def)

lemma unitDouble_0 [simp]: "unitDouble 0"
  by (simp add: unitDouble_def)

lemma unitDouble_half [simp]: "unitDouble (1 / 2)"
  unfolding unitDouble_def by code_simp

lemma times_0 [simp]: "0 \<le> n \<Longrightarrow> n < 2 ^ 53 \<Longrightarrow> js_mul (Fin 0) (num n) = Fin 0"
  by (simp add: num_exact)

subsection \<open>antiCheat\<close>

lemma six_explicit:
  assumes "cooldowns ac p = None" "spamCounts ac p = None"
   "1000 \<le> t1" "t1 \<le> t2" "t2 \<le> t3" "t3 \<le> t4" "t4 \<le> t5" "t5 \<le> t6" "t6 - t1 \<le> 5000"
   "spaced [(t1,k1),(t2,k2),(t3,k3),(t4,k4),(t5,k5),(t6,k6)]"
  shows "fst (runActions p [(t1,k1),(t2,k2),(t3,k3),(t4,k4),(t5,k5),(t6,k6)] ac)
         = [True,True,True,True,True,False]"
  using assms
  apply (cases k1; cases k2; cases k3; cases k4; cases k5)
  apply (simp_all add: ac_defs)
  done

lemma six_actions:
  assumes "cooldowns ac p = None" "spamCounts ac p = None" "length acts = 6"
    "sorted (map fst acts)" "1000 \<le> fst (hd acts)" "fst (last acts) - fst (hd acts) \<le> 5000"
    "spaced acts"
  shows "fst (runActions p acts ac) = [True,True,True,True,True,False]"
proof -
  from \<open>length acts = 6\<close> obtain a1 a2 a3 a4 a5 a6 where acts: "acts = [a1,a2,a3,a4,a5,a6]"
    by (auto simp: length_Suc_conv numeral_eq_Suc)
  obtain t1 k1 t2 k2 t3 k3 t4 k4 t5 k5 t6 k6 where
    a: "a1 = (t1,k1)" "a2 = (t2,k2)" "a3 = (t3,k3)" "a4 = (t4,k4)" "a5 = (t5,k5)" "a6 = (t6,k6)"
    by (metis surj_pair)
  show ?thesis
    using assms unfolding acts a
    by (intro six_explicit) simp_all
qed

lemma cooldown_999:
  "allowed (fst (checkCooldown t p k ac)) \<Longrightarrow>
   \<not> allowed (fst (checkCooldown (t + 999) p k (snd (checkCooldown t p k ac))))"
  by (cases k) (auto simp: ac_defs split: option.splits if_splits)

lemma rejected_frame:
  "\<not> allowed (fst (checkCooldown now p k ac)) \<Longrightarrow>
     lastAccepted (snd (checkCooldown now p k ac)) p k' = lastAccepted ac p k' \<and>
     burstCount (snd (checkCooldown now p k ac)) p
       = (if windowExpired now ac p then 0 else burstCount ac p)"
  by (cases k; cases k')
    (auto simp: ac_defs lastAccepted_def burstCount_def windowExpired_def
      split: option.splits if_splits)

lemma accepted_frame:
  "allowed (fst (checkCooldown now p k ac)) \<Longrightarrow>
     lastAccepted (snd (checkCooldown now p k ac)) p k'
       = (if k' = k then now else lastAccepted ac p k') \<and>
     burstCount (snd (checkCooldown now p k ac)) p
       = (if windowExpired now ac p then 0 else burstCount ac p) + 1"
  by (cases k; cases k')
    (auto simp: ac_defs lastAccepted_def burstCount_def windowExpired_def
      split: option.splits if_splits)

text \<open>
  C7, as the code has it. A player with no rate-limit state whose six actions fall within one
  spam window (the last at most 5000 ms after the first, the first not before 1000 ms on the
  clock), no two of the same kind less than 1000 ms apart, gets exactly five acceptances and
  then one rejection. Whenever an action at time \<open>t\<close> is accepted, an action of the same kind
  at \<open>t + 999\<close> is rejected, whatever the burst count. A rejected action leaves every per-kind
  timestamp as it was and never increments the burst counter: the counter keeps its value,
  unless the window had expired, in which case the check has reset it to \<open>0\<close> before
  rejecting. An accepted action sets the timestamp of its kind to the current time and adds
  one to the (possibly reset) counter.
\<close>

theorem checkCooldown_limits:
  "(cooldowns ac p = None \<and> spamCounts ac p = None \<and> length acts = 6 \<and> sorted (map fst acts)
      \<and> 1000 \<le> fst (hd acts) \<and> fst (last acts) - fst (hd acts) \<le> 5000 \<and> spaced acts
     \<longrightarrow> fst (runActions p acts ac) = [True, True, True, True, True, False])
   \<and> (allowed (fst (checkCooldown t q k ac1))
     \<longrightarrow> \<not> allowed (fst (checkCooldown (t + 999) q k (snd (checkCooldown t q k ac1))))
        \<and> lastAccepted (snd (checkCooldown t q k ac1)) q k = t
        \<and> lastAccepted (snd (checkCooldown t q k ac1)) q k' = (if k' = k then t else lastAccepted ac1 q k')
        \<and> burstCount (snd (checkCooldown t q k ac1)) q
            = (if windowExpired t ac1 q then 0 else burstCount ac1 q) + 1)
   \<and> (\<not> allowed (fst (checkCooldown t' q' j ac2))
     \<longrightarrow> lastAccepted (snd (checkCooldown t' q' j ac2)) q' j' = lastAccepted ac2 q' j'
        \<and> burstCount (snd (checkCooldown t' q' j ac2)) q'
            = (if windowExpired t' ac2 q' then 0 else burstCount ac2 q'))"
  using six_actions [of ac p acts] cooldown_999 [of t q k ac1]
    accepted_frame [of t q k ac1 k] accepted_frame [of t q k ac1 k']
    rejected_frame [of t' q' j ac2 j']
  by simp

theorem checkCooldown_limits_witness:
  "fst (runActions ''p'' [(10000, Guess), (10000, Message), (11000, Guess), (11000, Message),
          (12000, Guess), (12000, Message)] noGuard) = [True, True, True, True, True, False]
   \<and> allowed (fst (checkCooldown 10000 ''p'' Guess noGuard))
   \<and> \<not> allowed (fst (checkCooldown 10999 ''p'' Guess (snd (checkCooldown 10000 ''p'' Guess noGuard))))
   \<and> burstCount (snd (checkCooldown 10000 ''p'' Guess noGuard)) ''p'' = 1
   \<and> \<not> allowed (fst (checkCooldown 10500 ''p'' Guess (snd (checkCooldown 10000 ''p'' Guess noGuard))))
   \<and> burstCount (snd (checkCooldown 10500 ''p'' Guess (snd (checkCooldown 10000 ''p'' Guess noGuard)))) ''p'' = 1"
proof -
  have h1: "cooldowns noGuard ''p'' = None \<and> spamCounts noGuard ''p'' = None"
    by (simp add: noGuard_def)
  have h2: "allowed (fst (checkCooldown 10000 ''p'' Guess noGuard))"
    by (simp add: ac_defs noGuard_def)
  have h3: "\<not> allowed (fst (checkCooldown 10500 ''p'' Guess (snd (checkCooldown 10000 ''p'' Guess noGuard))))"
    by (simp add: ac_defs noGuard_def)
  have h4: "burstCount noGuard ''p'' = 0 \<and> \<not> windowExpired 10000 noGuard ''p''
    \<and> burstCount (snd (checkCooldown 10000 ''p'' Guess noGuard)) ''p'' = 1
    \<and> \<not> windowExpired 10500 (snd (checkCooldown 10000 ''p'' Guess noGuard)) ''p''"
    by (simp add: ac_defs noGuard_def burstCount_def windowExpired_def)
  show ?thesis
    using h1 h2 h3 h4
      checkCooldown_limits [of noGuard "''p''"
        "[(10000, Guess), (10000, Message), (11000, Guess), (11000, Message),
          (12000, Guess), (12000, Message)]"
        10000 "''p''" Guess noGuard Guess
        10500 "''p''" Guess "snd (checkCooldown 10000 ''p'' Guess noGuard)" Guess]
    by (simp add: LAST_GUESS_TIMEOUT_def)
qed

text \<open>
  C7 as stated fails twice on the code. The pair of guesses at 10500 and 11499 (= 10500 + 999)
  has its second member accepted, because the first was rejected. And the guess at 15001 is
  rejected by the cooldown after the check has already reset the expired window: the burst
  counter goes from 3 to 0.
\<close>

theorem checkCooldown_limits_counterexample:
  "fst (runActions ''p'' [(10000, Guess), (10500, Guess), (11499, Guess)] noGuard)
     = [True, False, True]
   \<and> burstCount (snd (runActions ''p''
        [(10000, Guess), (10500, Guess), (11499, Guess), (14800, Guess)] noGuard)) ''p'' = 3
   \<and> fst (runActions ''p''
        [(10000, Guess), (10500, Guess), (11499, Guess), (14800, Guess), (15001, Guess)] noGuard)
     = [True, False, True, True, False]
   \<and> burstCount (snd (runActions ''p''
        [(10000, Guess), (10500, Guess), (11499, Guess), (14800, Guess), (15001, Guess)] noGuard))
        ''p'' = 0"
  by (simp add: ac_defs noGuard_def burstCount_def)

subsection \<open>What a handler leaves alone\<close>

lemma guard_emit [simp]: "guard (emit a m s) = guard s"
  by (simp add: emit_def)

lemma guard_setRoom [simp]: "guard (setRoom r rm s) = guard s"
  by (simp add: setRoom_def)

lemma guard_clearInterval [simp]: "guard (clearInterval h s) = guard s"
  by (simp add: clearInterval_def split: option.splits)

lemma guard_releaseWord [simp]: "guard (releaseWord w s) = guard s"
  by (simp add: releaseWord_def)

lemma guard_setTimer [simp]: "guard (snd (setTimer d t s)) = guard s"
  by (simp add: setTimer_def)

lemma guard_endGame: "endGame c s = Inr s' \<Longrightarrow> guard s' = guard s"
  by (auto simp: endGame_def Let_def split: option.splits)

lemma guard_endRound: "endRound now c s = Inr s' \<Longrightarrow> guard s' = guard s"
  by (auto simp: endRound_def Let_def split: option.splits if_splits dest!: guard_endGame)

lemma guard_transferHost: "transferHost sid c r s = Inr s' \<Longrightarrow> guard s' = guard s"
  by (auto simp: transferHost_def Let_def split: option.splits if_splits list.splits)

lemma guard_disconnect:
  "players s sid = Some pl \<Longrightarrow> rooms s (room pl) = Some r \<Longrightarrow> disconnect now sid s = Inr s'
   \<Longrightarrow> guard s' = resetSpamCounter sid (guard s)"
  by (auto simp: disconnect_def Let_def split: option.splits if_splits sum.splits
        dest!: guard_endRound guard_transferHost)

lemma randomIndex_state: "snd (randomIndex n s) = s\<lparr>drawn := drawn s + 1\<rparr>"
  by (simp add: randomIndex_def)

lemma codeLoop_state: "snd (codeLoop k code s) = s\<lparr>drawn := drawn s + k\<rparr>"
  by (induction k arbitrary: code s) (simp_all add: split_beta randomIndex_state)

lemma generateRoomCode_state: "snd (generateRoomCode s) = s\<lparr>drawn := drawn s + 4\<rparr>"
  by (simp add: generateRoomCode_def codeLoop_state)

lemma random_emit [simp]: "random (emit a m s) = random s"
  by (simp add: emit_def)

lemma random_setRoom [simp]: "random (setRoom r rm s) = random s"
  by (simp add: setRoom_def)

lemma random_clearInterval [simp]: "random (clearInterval h s) = random s"
  by (simp add: clearInterval_def split: option.splits)

lemma random_releaseWord [simp]: "random (releaseWord w s) = random s"
  by (simp add: releaseWord_def)

lemma random_setTimer [simp]: "random (snd (setTimer d t s)) = random s"
  by (simp add: setTimer_def)

lemma random_randomIndex [simp]: "random (snd (randomIndex n s)) = random s"
  by (simp add: randomIndex_def)

lemma random_codeLoop [simp]: "random (snd (codeLoop k code s)) = random s"
  by (induction k arbitrary: code s) (simp_all add: split_beta)

lemma random_createRoom [simp]: "random (createRoom sid n av s) = random s"
  by (simp add: createRoom_def generateRoomCode_def Let_def split_beta setRoom_def emit_def)

lemma random_joinRoom [simp]: "random (joinRoom sid code n av s) = random s"
  by (simp add: joinRoom_def Let_def split: option.splits)

lemma random_updateAvatar [simp]: "random (updateAvatar sid av s) = random s"
  by (simp add: updateAvatar_def Let_def split: option.splits)

lemma random_sendChatMessage [simp]: "random (sendChatMessage now sid t s) = random s"
  by (simp add: sendChatMessage_def Let_def split_beta split: option.splits)

lemma random_playAgain [simp]: "random (playAgain sid s) = random s"
  by (simp add: playAgain_def split: option.splits)

lemma random_endGame: "endGame c s = Inr s' \<Longrightarrow> random s' = random s"
  by (auto simp: endGame_def Let_def split: option.splits)

lemma random_getRandomWord: "getRandomWord now d s = Inr (w, s') \<Longrightarrow> random s' = random s"
  by (auto simp: getRandomWord_def Let_def split_beta randomIndex_def split: option.splits)

lemma random_startRound: "startRound now c s = Inr s' \<Longrightarrow> random s' = random s"
  by (auto simp: startRound_def Let_def split_beta randomIndex_def getRandomWord_def
        setRoom_def setTimer_def emit_def split: option.splits sum.splits if_splits)

lemma random_startGame: "startGame now sid st s = Inr s' \<Longrightarrow> random s' = random s"
  by (auto simp: startGame_def Let_def split: option.splits if_splits dest!: random_startRound)

lemma random_endRound: "endRound now c s = Inr s' \<Longrightarrow> random s' = random s"
  by (auto simp: endRound_def Let_def split: option.splits if_splits dest!: random_endGame)

lemma random_tick: "tick now r c s = Inr s' \<Longrightarrow> random s' = random s"
  by (auto simp: tick_def Let_def split: option.splits if_splits dest!: random_endRound)

lemma random_fireTimer: "fireTimer now h s = Inr s' \<Longrightarrow> random s' = random s"
  by (auto simp: fireTimer_def split: option.splits if_splits task.splits
        dest!: random_tick random_endRound random_startRound)

lemma random_drawingEv: "drawingEv sid d s = Inr s' \<Longrightarrow> random s' = random s"
  by (auto simp: drawingEv_def split: option.splits if_splits)

lemma random_clearCanvas: "clearCanvas sid s = Inr s' \<Longrightarrow> random s' = random s"
  by (auto simp: clearCanvas_def split: option.splits if_splits)

lemma random_maskWord: "maskWord w s = Some (m, s') \<Longrightarrow> random s' = random s"
  by (auto simp: maskWord_def split: option.splits if_splits)

lemma random_correctGuess:
  "correctGuess now sid player r gs s = Inr s' \<Longrightarrow> random s' = random s"
  by (auto simp: correctGuess_def Let_def split: option.splits if_splits
        dest!: random_maskWord)

lemma random_submitGuess: "submitGuess now sid g s = Inr s' \<Longrightarrow> random s' = random s"
  by (auto simp: submitGuess_def Let_def split_beta split: option.splits if_splits
        dest!: random_correctGuess)

lemma random_transferHost: "transferHost sid c r s = Inr s' \<Longrightarrow> random s' = random s"
  by (auto simp: transferHost_def Let_def setRoom_def emit_def
        split: option.splits if_splits list.splits)

lemma random_disconnect: "disconnect now sid s = Inr s' \<Longrightarrow> random s' = random s"
  by (auto simp: disconnect_def Let_def split: option.splits if_splits sum.splits
        dest!: random_transferHost random_endRound)

lemma random_step: "step now e s = Inr s' \<Longrightarrow> random s' = random s"
  by (cases e)
     (auto dest: random_startGame random_drawingEv random_clearCanvas random_submitGuess
        random_disconnect random_fireTimer)

lemma random_run: "run es s = Inr s' \<Longrightarrow> random s' = random s"
  by (induction es arbitrary: s) (auto split: sum.splits dest: random_step)

lemma reset_facts:
  "spamCounts (resetSpamCounter p ac) p = None \<and> cooldowns (resetSpamCounter p ac) = cooldowns ac
   \<and> (\<forall>q. q \<noteq> p \<longrightarrow> spamCounts (resetSpamCounter p ac) q = spamCounts ac q)
   \<and> allowed (fst (checkCooldown now p k (resetSpamCounter p ac)))
       = (lastAccepted ac p k + LAST_GUESS_TIMEOUT \<le> now)"
  by (cases k) (auto simp: resetSpamCounter_def ac_defs lastAccepted_def split: option.splits)

lemma generateRoomCode_server0: "fst (generateRoomCode server0) = ''AAAA''"
  by code_simp

lemma lobby1_facts:
  "players lobby1 ''a'' = Some ann \<and> rooms lobby1 ''AAAA'' = Some 0
   \<and> state (heap lobby1 0) = Lobby \<and> guard lobby1 = noGuard
   \<and> roomPlayers (heap lobby1 0)
       = [\<lparr>mId = ''a'', mName = ''Ann'', mIsHost = True, mAvatar = ''cat''\<rparr>]"
  by (simp add: lobby1_def ann_def createRoom_def split_beta Let_def emit_def setRoom_def
        blankRoom_def generateRoomCode_state generateRoomCode_server0 server0_def [symmetric])
     (simp add: server0_def initial_def)

lemma lobby1_players: "players lobby1 ''b'' = None"
  by (simp add: lobby1_def createRoom_def split_beta Let_def emit_def setRoom_def
        generateRoomCode_state server0_def initial_def)

text \<open>
  C5, as the code has it. The reset that the \<open>disconnect\<close> handler performs (for a player
  whose room is live) is \<open>resetSpamCounter\<close>: it removes the player's spam-window record and
  nothing else. The per-kind timestamps stay, so the next action of that identifier starts a
  new burst window but is accepted only if the cooldown since the last accepted action of
  its kind has passed.
\<close>

theorem resetSpamCounter_clears_spam_only:
  "spamCounts (resetSpamCounter p ac) p = None
   \<and> cooldowns (resetSpamCounter p ac) = cooldowns ac
   \<and> (\<forall>q. q \<noteq> p \<longrightarrow> spamCounts (resetSpamCounter p ac) q = spamCounts ac q)
   \<and> allowed (fst (checkCooldown now p k (resetSpamCounter p ac)))
       = (lastAccepted ac p k + LAST_GUESS_TIMEOUT \<le> now)
   \<and> (players s p = Some pl \<and> rooms s (room pl) = Some r \<and> disconnect t p s = Inr s'
      \<longrightarrow> guard s' = resetSpamCounter p (guard s))"
  using reset_facts [of p ac now k] guard_disconnect [of s p pl r t s']
  by blast

theorem resetSpamCounter_clears_spam_only_witness:
  "players lobby1 ''a'' = Some ann \<and> rooms lobby1 (room ann) = Some 0
   \<and> disconnect 7000 ''a'' lobby1 = Inr (projr (disconnect 7000 ''a'' lobby1))
   \<and> guard (projr (disconnect 7000 ''a'' lobby1)) = resetSpamCounter ''a'' (guard lobby1)
   \<and> ''b'' \<noteq> ''a''
   \<and> spamCounts (resetSpamCounter ''a'' (guard lobby1)) ''b'' = spamCounts (guard lobby1) ''b''"
proof -
  have h1: "players lobby1 ''a'' = Some ann \<and> rooms lobby1 (room ann) = Some 0"
    using lobby1_facts by (simp add: ann_def)
  have h2: "disconnect 7000 ''a'' lobby1 = Inr (projr (disconnect 7000 ''a'' lobby1))"
    using lobby1_facts by (simp add: disconnect_def ann_def Let_def setRoom_def)
  show ?thesis
    using h1 h2
      resetSpamCounter_clears_spam_only [of "''a''" "guard lobby1" 0 Guess lobby1 ann 0 7000
        "projr (disconnect 7000 ''a'' lobby1)"]
    by simp
qed

text \<open>
  C5 as stated fails: a first-ever guess at 10500 is accepted, but after an accepted guess at
  10000 and the reset, the guess at 10500 is rejected, because the timestamp of the guess at
  10000 is still there. On the server: Ann guesses at 10000 (dropped, the room is in the
  lobby) and disconnects; her cooldown entry outlives her.
\<close>

theorem resetSpamCounter_clears_spam_only_counterexample:
  "allowed (fst (checkCooldown 10500 ''p'' Guess noGuard))
   \<and> \<not> allowed (fst (checkCooldown 10500 ''p'' Guess
          (resetSpamCounter ''p'' (snd (checkCooldown 10000 ''p'' Guess noGuard)))))
   \<and> (case run [(10000, SubmitGuess ''a'' ''apple''), (10200, Disconnect ''a'')] lobby1 of
        Inl e \<Rightarrow> False
      | Inr s \<Rightarrow> players s ''a'' = None \<and> spamCounts (guard s) ''a'' = None
                \<and> lastAccepted (guard s) ''a'' Guess = 10000)"
  by (simp add: ac_defs resetSpamCounter_def lastAccepted_def lobby1_def ann_def ev_defs
        eval_nat_numeral submitGuess_def disconnect_def)

subsection \<open>submitGuess: the order of the checks\<close>

lemma submitGuess_rejected:
  "players s sid = Some player \<Longrightarrow> \<not> allowed (fst (checkCooldown now sid Guess (guard s))) \<Longrightarrow>
   submitGuess now sid g s = Inr (s\<lparr>guard := snd (checkCooldown now sid Guess (guard s))\<rparr>)"
  by (simp add: submitGuess_def split_beta Let_def)

lemma submitGuess_dropped:
  "players s sid = Some player \<Longrightarrow> allowed (fst (checkCooldown now sid Guess (guard s))) \<Longrightarrow>
   dropped sid player s \<Longrightarrow>
   submitGuess now sid g s = Inr (s\<lparr>guard := snd (checkCooldown now sid Guess (guard s))\<rparr>)"
  by (auto simp: submitGuess_def split_beta Let_def dropped_def split: option.splits)

text \<open>
  C10. For a known player, \<open>submitGuess\<close> consults the rate limiter first. If the limiter
  rejects, the handler returns with the limiter's state as the only change: rooms, room
  objects (with their scores), timers and messages are as before. If the limiter accepts and
  the guess is then dropped because the room is gone, the room is not playing, the sender is
  the drawer or the sender has already guessed, the handler again changes nothing but the
  limiter's state, and that state has recorded the guess: the guess timestamp is the current
  time and the burst counter has been incremented.
\<close>

theorem submitGuess_rate_limit_first:
  assumes "players s sid = Some player"
  shows "(\<not> allowed (fst (checkCooldown now sid Guess (guard s)))
      \<longrightarrow> (\<exists>s'. submitGuess now sid g s = Inr s'
            \<and> s' = s\<lparr>guard := snd (checkCooldown now sid Guess (guard s))\<rparr>
            \<and> rooms s' = rooms s \<and> heap s' = heap s \<and> players s' = players s
            \<and> timers s' = timers s \<and> activeWords s' = activeWords s \<and> outbox s' = outbox s))
    \<and> (allowed (fst (checkCooldown now sid Guess (guard s))) \<and> dropped sid player s
      \<longrightarrow> (\<exists>s'. submitGuess now sid g s = Inr s'
            \<and> s' = s\<lparr>guard := snd (checkCooldown now sid Guess (guard s))\<rparr>
            \<and> rooms s' = rooms s \<and> heap s' = heap s \<and> players s' = players s
            \<and> timers s' = timers s \<and> activeWords s' = activeWords s \<and> outbox s' = outbox s
            \<and> lastAccepted (guard s') sid Guess = now
            \<and> burstCount (guard s') sid
                = (if windowExpired now (guard s) sid then 0 else burstCount (guard s) sid) + 1))"
  using submitGuess_rejected [OF assms, of now g] submitGuess_dropped [OF assms, of now g]
    accepted_frame [of now sid Guess "guard s" Guess]
  by simp

theorem submitGuess_rate_limit_first_witness:
  "players lobby1 ''a'' = Some ann
   \<and> allowed (fst (checkCooldown 10000 ''a'' Guess (guard lobby1))) \<and> dropped ''a'' ann lobby1
   \<and> submitGuess 10000 ''a'' ''apple'' lobby1
       = Inr (lobby1\<lparr>guard := snd (checkCooldown 10000 ''a'' Guess (guard lobby1))\<rparr>)
   \<and> burstCount (snd (checkCooldown 10000 ''a'' Guess (guard lobby1))) ''a'' = 1
   \<and> players (lobby1\<lparr>guard := snd (checkCooldown 10000 ''a'' Guess (guard lobby1))\<rparr>) ''a''
       = Some ann
   \<and> \<not> allowed (fst (checkCooldown 10400 ''a'' Guess
          (guard (lobby1\<lparr>guard := snd (checkCooldown 10000 ''a'' Guess (guard lobby1))\<rparr>))))
   \<and> heap (projr (submitGuess 10400 ''a'' ''apple''
          (lobby1\<lparr>guard := snd (checkCooldown 10000 ''a'' Guess (guard lobby1))\<rparr>)))
       = heap lobby1"
proof -
  have h1: "players lobby1 ''a'' = Some ann" "guard lobby1 = noGuard"
    using lobby1_facts by simp_all
  have h2: "allowed (fst (checkCooldown 10000 ''a'' Guess noGuard))"
    "burstCount noGuard ''a'' = 0" "\<not> windowExpired 10000 noGuard ''a''"
    by (simp_all add: ac_defs noGuard_def burstCount_def windowExpired_def)
  have h3: "dropped ''a'' ann lobby1"
    using lobby1_facts by (simp add: dropped_def ann_def)
  have h4: "\<not> allowed (fst (checkCooldown 10400 ''a'' Guess
              (snd (checkCooldown 10000 ''a'' Guess noGuard))))"
    by (simp add: ac_defs noGuard_def)
  show ?thesis
    using h1 h2 h3 h4
      submitGuess_rate_limit_first [of lobby1 "''a''" ann 10000 "''apple''"]
      submitGuess_rate_limit_first
        [of "lobby1\<lparr>guard := snd (checkCooldown 10000 ''a'' Guess (guard lobby1))\<rparr>"
            "''a''" ann 10400 "''apple''"]
    by simp
qed

subsection \<open>Room codes\<close>

lemma randomIndex_range:
  assumes "unitDouble (random s (drawn s))" "0 < n" "n < 2 ^ 53"
  shows "\<exists>i. fst (randomIndex n s) = Fin (of_int i) \<and> 0 \<le> i \<and> i < int n"
proof -
  have "int n < 2 ^ 53" using assms(3) by (metis of_nat_less_numeral_power_cancel_iff)
  from index_range [OF assms(1) _ this] assms(2) show ?thesis
    by (simp add: randomIndex_def)
qed

lemma charAtNum_in_range:
  "0 \<le> i \<Longrightarrow> i < int (length w) \<Longrightarrow> \<exists>c \<in> set w. charAtNum w (Fin (of_int i)) = [c]"
  by (auto simp: charAtNum_def charAt_def nthOpt_def)

lemma codeLoop_shape:
  assumes "\<forall>n. unitDouble (random s n)"
  shows "length (fst (codeLoop k code s)) = length code + k
    \<and> set (fst (codeLoop k code s)) \<subseteq> set code \<union> set chars"
  using assms
proof (induction k arbitrary: code s)
  case 0
  then show ?case by simp
next
  case (Suc k)
  let ?i = "fst (randomIndex (length chars) s)"
  let ?s1 = "s\<lparr>drawn := drawn s + 1\<rparr>"
  have len: "0 < length chars" "length chars < 2 ^ 53" by (simp_all add: chars_def)
  from randomIndex_range [OF _ len, of s] Suc.prems
  obtain i where i: "?i = Fin (of_int i)" "0 \<le> i" "i < int (length chars)" by blast
  then obtain c where c: "c \<in> set chars" "charAtNum chars ?i = [c]"
    using charAtNum_in_range by (metis)
  have step: "codeLoop (Suc k) code s = codeLoop k (code @ [c]) ?s1"
    using c by (simp add: split_beta randomIndex_state)
  have "\<forall>n. unitDouble (random ?s1 n)" using Suc.prems by simp
  from Suc.IH [OF this, of "code @ [c]"] c(1) show ?case
    unfolding step by auto
qed

lemma generateRoomCode_shape:
  assumes "\<forall>n. unitDouble (random s n)"
  shows "length (fst (generateRoomCode s)) = 4
    \<and> set (fst (generateRoomCode s)) \<subseteq> set chars"
  using codeLoop_shape [OF assms, of 4 "[]"] by (simp add: generateRoomCode_def)

lemma generateRoomCode_third:
  \<comment> \<open>\<open>Math.random() = 0.3333333333333333\<close>: the product with 24 rounds up to 8\<close>
  "fst (generateRoomCode (initial demoWords (\<lambda>_. 6004799503160661 / 18014398509481984)))
     = ''JJJJ''"
  by code_simp

lemma chars_unambiguous:
  "CHR ''I'' \<notin> set chars \<and> CHR ''O'' \<notin> set chars \<and> CHR ''0'' \<notin> set chars
   \<and> CHR ''1'' \<notin> set chars"
  by (simp add: chars_def)

lemma createRoom_effect:
  "rooms (createRoom sid n av s) = (rooms s)(fst (generateRoomCode s) \<mapsto> nextRef s)
   \<and> heap (createRoom sid n av s) (nextRef s)
     = \<lparr>roomPlayers = [\<lparr>mId = sid, mName = n, mIsHost = True, mAvatar = av\<rparr>], host = sid,
        state = Lobby, roomSettings = None, gameState = None, timerInterval = None\<rparr>
   \<and> (Callback sid, RoomCreated (fst (generateRoomCode s))) \<in> set (outbox (createRoom sid n av s))"
  by (simp add: createRoom_def split_beta Let_def emit_def generateRoomCode_state)

text \<open>
  C8, as the code has it. With \<open>Math.random()\<close> a double in \<open>[0, 1)\<close>, the code that
  \<open>createRoom\<close> returns has four characters, each from the 24 letters of \<open>chars\<close> (the
  product with 24, rounded to a double, stays below 24), so none of I, O, 0, 1.
  The code is not compared with the live room codes: whatever \<open>rooms\<close> holds under it, the
  new room (creator as only member and host, in the lobby) is stored there.
\<close>

theorem createRoom_code:
  assumes "\<forall>n. unitDouble (random s n)"
  shows "length (fst (generateRoomCode s)) = 4
    \<and> set (fst (generateRoomCode s)) \<subseteq> set chars
    \<and> CHR ''I'' \<notin> set (fst (generateRoomCode s)) \<and> CHR ''O'' \<notin> set (fst (generateRoomCode s))
    \<and> CHR ''0'' \<notin> set (fst (generateRoomCode s)) \<and> CHR ''1'' \<notin> set (fst (generateRoomCode s))
    \<and> (Callback sid, RoomCreated (fst (generateRoomCode s)))
         \<in> set (outbox (createRoom sid n av s))
    \<and> rooms (createRoom sid n av s) (fst (generateRoomCode s)) = Some (nextRef s)
    \<and> roomPlayers (heap (createRoom sid n av s) (nextRef s))
         = [\<lparr>mId = sid, mName = n, mIsHost = True, mAvatar = av\<rparr>]
    \<and> host (heap (createRoom sid n av s) (nextRef s)) = sid
    \<and> state (heap (createRoom sid n av s) (nextRef s)) = Lobby"
  using generateRoomCode_shape [OF assms] chars_unambiguous createRoom_effect [of sid n av s]
  by auto

theorem createRoom_code_witness:
  "(\<forall>n. unitDouble (random lobby1 n))
   \<and> length (fst (generateRoomCode lobby1)) = 4
   \<and> rooms (createRoom ''b'' ''Bob'' ''dog'' lobby1) (fst (generateRoomCode lobby1))
       = Some (nextRef lobby1)"
proof -
  have h: "\<forall>n. unitDouble (random lobby1 n)"
    by (simp add: lobby1_def server0_def initial_def)
  show ?thesis
    using h createRoom_code [OF h, of "''b''" "''Bob''" "''dog''"] by simp
qed

text \<open>
  C8 as stated fails on uniqueness. Ann's room is live under \<open>AAAA\<close>; the random source
  gives Bob's \<open>createRoom\<close> the same four letters; the code is returned to Bob as it is and
  Bob's room replaces Ann's in \<open>rooms\<close>, while Ann's entry in \<open>players\<close> still names the code.
\<close>

theorem createRoom_code_counterexample:
  "rooms lobby1 ''AAAA'' = Some 0
   \<and> fst (generateRoomCode lobby1) = ''AAAA''
   \<and> (Callback ''b'', RoomCreated ''AAAA'') \<in> set (outbox (createRoom ''b'' ''Bob'' ''dog'' lobby1))
   \<and> rooms (createRoom ''b'' ''Bob'' ''dog'' lobby1) ''AAAA'' = Some 1
   \<and> map mId (roomPlayers (heap (createRoom ''b'' ''Bob'' ''dog'' lobby1) 1)) = [''b'']
   \<and> map_option room (players (createRoom ''b'' ''Bob'' ''dog'' lobby1) ''a'') = Some ''AAAA''"
  by (simp add: lobby1_def ev_defs eval_nat_numeral)

subsection \<open>Starting a game\<close>

lemma nthNum_in_range:
  "0 \<le> i \<Longrightarrow> i < int (length xs) \<Longrightarrow> \<exists>x \<in> set xs. nthNum xs (Fin (of_int i)) = Some x"
  by (auto simp: nthNum_def nthOpt_def)

lemma listFor_cong: "wordLists s' = wordLists s \<Longrightarrow> listFor d s' = listFor d s"
  by (simp add: listFor_def split: option.splits)

lemma getRandomWord_ok:
  assumes "listFor d s = Some wl" "wl \<noteq> []" "length wl < 2 ^ 53"
    "unitDouble (random s (drawn s))"
  shows "\<exists>w \<in> set wl. getRandomWord now d s
           = Inr (w, s\<lparr>drawn := drawn s + 1,
                        activeWords := (activeWords s)
                          (toLowerCase w \<mapsto> \<lparr>timestamp = now, lockDifficulty = d\<rparr>)\<rparr>)"
proof -
  have "0 < length wl" using assms(2) by simp
  from randomIndex_range [OF assms(4) this assms(3)]
  obtain w where "w \<in> set wl" "nthNum wl (fst (randomIndex (length wl) s)) = Some w"
    using nthNum_in_range by metis
  then show ?thesis
    using assms(1) by (auto simp: getRandomWord_def split_beta randomIndex_state)
qed

lemma startRound_ok:
  assumes room: "rooms s roomCode = Some r"
    and gs: "gameState (heap s r) = Some gs"
    and elig: "filter (\<lambda>p. Some (mId p) \<noteq> currentDrawer gs) (roomPlayers (heap s r)) \<noteq> []"
    and wl: "listFor (difficulty gs) s = Some wl" "wl \<noteq> []"
    and len: "length (roomPlayers (heap s r)) < 2 ^ 53" "length wl < 2 ^ 53"
    and rng: "\<forall>n. unitDouble (random s n)"
  shows "\<exists>s' gs' d w h. startRound now roomCode s = Inr s'
      \<and> rooms s' = rooms s \<and> players s' = players s
      \<and> heap s' = (heap s)(r := (heap s r)\<lparr>gameState := Some gs', timerInterval := Some h\<rparr>)
      \<and> gs' = gs\<lparr>currentDrawer := Some (mId d), currentDrawerName := mName d,
                  currentDrawerAvatar := mAvatar d, word := w, playersWhoGuessed := [],
                  drawing := None, timer := roundTime gs, hint := []\<rparr>
      \<and> d \<in> set (roomPlayers (heap s r)) \<and> Some (mId d) \<noteq> currentDrawer gs
      \<and> w \<in> set wl
      \<and> h = nextTimer s
      \<and> timers s' = (timers s)(h \<mapsto> (now + 1000, Tick r roomCode))
      \<and> activeWords s' = (activeWords s)
           (toLowerCase w \<mapsto> \<lparr>timestamp = now, lockDifficulty = difficulty gs\<rparr>)
      \<and> outbox s' = outbox s @
           [(IoTo roomCode, RoundStarted (mId d) (mName d) (mAvatar d) (currentRound gs)
               (rounds gs) (roundTime gs)),
            (IoTo (mId d), WordUpdate w)]"
proof -
  let ?el = "filter (\<lambda>p. Some (mId p) \<noteq> currentDrawer gs) (roomPlayers (heap s r))"
  let ?s1 = "s\<lparr>drawn := drawn s + 1\<rparr>"
  have "0 < length ?el" using elig by simp
  moreover have "length ?el < 2 ^ 53"
    using len(1) by (rule le_less_trans [OF length_filter_le])
  ultimately obtain d where
    d: "d \<in> set ?el" "nthNum ?el (fst (randomIndex (length ?el) s)) = Some d"
    using randomIndex_range [of s "length ?el"] rng nthNum_in_range by metis
  have "listFor (difficulty gs) ?s1 = Some wl"
    using wl(1) listFor_cong [of ?s1 s] by simp
  from getRandomWord_ok [OF this wl(2) len(2), of now] rng
  obtain w where w: "w \<in> set wl"
    "getRandomWord now (difficulty gs) ?s1
       = Inr (w, ?s1\<lparr>drawn := drawn ?s1 + 1,
                      activeWords := (activeWords ?s1)
                        (toLowerCase w \<mapsto> \<lparr>timestamp = now, lockDifficulty = difficulty gs\<rparr>)\<rparr>)"
    by auto
  show ?thesis
    using room gs d w
    by (force simp add: startRound_def split_beta Let_def randomIndex_state setTimer_def
          setRoom_def emit_def)
qed

lemma startGame_noop:
  "players s sid = None \<or> (\<exists>p. players s sid = Some p \<and> (\<not> isHost p \<or> rooms s (room p) = None
      \<or> (\<exists>r. rooms s (room p) = Some r \<and> state (heap s r) \<noteq> Lobby)))
   \<Longrightarrow> startGame now sid st s = Inr s"
  by (auto simp: startGame_def)

lemma startGame_inherited:
  assumes "players s sid = Some player" "isHost player"
    "rooms s (room player) = Some r" "state (heap s r) = Lobby"
    "listFor (sDifficulty st) s = None"
  shows "startGame now sid st s = Inl TypeError"
proof -
  define gs0 where "gs0 = \<lparr>rounds = sRounds st, currentRound = 1,
       roundTime = sRoundTime st, difficulty = sDifficulty st,
       scores = [], playersWhoGuessed = [],
       allPlayers = map mId (roomPlayers (heap s r)),
       avatars = fold (\<lambda>p acc. assign (mId p) (mAvatar p) acc) (roomPlayers (heap s r)) [],
       currentDrawer = None, currentDrawerName = [],
       currentDrawerAvatar = [], word = [], drawing = None,
       timer = 0, hint = []\<rparr>"
  define s1 where "s1 = setRoom r ((heap s r)\<lparr>state := Playing, roomSettings := Some st,
                                           gameState := Some gs0\<rparr>) s"
  have sg: "startGame now sid st s = startRound now (room player) s1"
    using assms(1-4) by (simp add: startGame_def Let_def gs0_def s1_def)
  have a: "rooms s1 (room player) = Some r" "gameState (heap s1 r) = Some gs0"
    "difficulty gs0 = sDifficulty st" "wordLists s1 = wordLists s"
    using assms(3) by (simp_all add: s1_def setRoom_def gs0_def)
  have w: "getRandomWord now (sDifficulty st) s' = Inl TypeError"
    if "wordLists s' = wordLists s" for s'
    using assms(5) listFor_cong [OF that, of "sDifficulty st"] by (simp add: getRandomWord_def)
  have "startRound now (room player) s1 = Inl TypeError"
    using a(1-3) w [of "snd (randomIndex n s1)" for n] a(4)
    by (simp add: startRound_def Let_def split_beta randomIndex_state split: option.splits)
  then show ?thesis using sg by simp
qed

lemma listFor_inherited:
  "d \<in> set objectPrototypeKeys \<Longrightarrow> wordLists s d = None \<Longrightarrow> listFor d s = None"
  by (simp add: listFor_def)

lemma startGame_ok:
  assumes pl: "players s sid = Some player" "isHost player"
    and room: "rooms s (room player) = Some r" "state (heap s r) = Lobby"
    and mem: "roomPlayers (heap s r) \<noteq> []"
    and wl: "listFor (sDifficulty st) s = Some wl" "wl \<noteq> []"
    and len: "length (roomPlayers (heap s r)) < 2 ^ 53" "length wl < 2 ^ 53"
    and rng: "\<forall>n. unitDouble (random s n)"
  shows "\<exists>s' gs d h. startGame now sid st s = Inr s'
      \<and> state (heap s' r) = Playing
      \<and> gameState (heap s' r) = Some gs
      \<and> currentRound gs = 1 \<and> rounds gs = sRounds st \<and> roundTime gs = sRoundTime st
      \<and> timer gs = sRoundTime st \<and> scores gs = [] \<and> playersWhoGuessed gs = []
      \<and> allPlayers gs = map mId (roomPlayers (heap s r))
      \<and> d \<in> set (roomPlayers (heap s r)) \<and> currentDrawer gs = Some (mId d)
      \<and> word gs \<in> set wl
      \<and> timerInterval (heap s' r) = Some h
      \<and> timers s' h = Some (now + 1000, Tick r (room player))
      \<and> outbox s' = outbox s @
           [(IoTo (room player), RoundStarted (mId d) (mName d) (mAvatar d) 1 (sRounds st)
               (sRoundTime st)),
            (IoTo (mId d), WordUpdate (word gs))]"
proof -
  define gs0 where "gs0 = \<lparr>rounds = sRounds st, currentRound = 1,
       roundTime = sRoundTime st, difficulty = sDifficulty st,
       scores = [], playersWhoGuessed = [],
       allPlayers = map mId (roomPlayers (heap s r)),
       avatars = fold (\<lambda>p acc. assign (mId p) (mAvatar p) acc) (roomPlayers (heap s r)) [],
       currentDrawer = None, currentDrawerName = [],
       currentDrawerAvatar = [], word = [], drawing = None,
       timer = 0, hint = []\<rparr>"
  define s1 where "s1 = setRoom r ((heap s r)\<lparr>state := Playing, roomSettings := Some st,
                                           gameState := Some gs0\<rparr>) s"
  have sg: "startGame now sid st s = startRound now (room player) s1"
    using pl room by (simp add: startGame_def Let_def gs0_def s1_def)
  have a: "rooms s1 (room player) = Some r" "gameState (heap s1 r) = Some gs0"
    "roomPlayers (heap s1 r) = roomPlayers (heap s r)"
    "listFor (difficulty gs0) s1 = Some wl" "\<forall>n. unitDouble (random s1 n)"
    "currentDrawer gs0 = None" "outbox s1 = outbox s" "state (heap s1 r) = Playing"
    using room wl rng listFor_cong [of s1 s "sDifficulty st"]
    by (simp_all add: s1_def setRoom_def gs0_def)
  have el: "filter (\<lambda>p. Some (mId p) \<noteq> currentDrawer gs0) (roomPlayers (heap s1 r)) \<noteq> []"
    using mem a(3,6) by simp
  have l1: "length (roomPlayers (heap s1 r)) < 2 ^ 53" using len(1) a(3) by simp
  from startRound_ok [OF a(1,2) el a(4) wl(2) l1 len(2) a(5), of now]
  obtain s' gs' d w h where r:
    "startRound now (room player) s1 = Inr s'"
    "heap s' = (heap s1)(r := (heap s1 r)\<lparr>gameState := Some gs', timerInterval := Some h\<rparr>)"
    "gs' = gs0\<lparr>currentDrawer := Some (mId d), currentDrawerName := mName d,
                  currentDrawerAvatar := mAvatar d, word := w, playersWhoGuessed := [],
                  drawing := None, timer := roundTime gs0, hint := []\<rparr>"
    "d \<in> set (roomPlayers (heap s1 r))" "w \<in> set wl" "h = nextTimer s1"
    "timers s' = (timers s1)(h \<mapsto> (now + 1000, Tick r (room player)))"
    "outbox s' = outbox s1 @
           [(IoTo (room player), RoundStarted (mId d) (mName d) (mAvatar d) (currentRound gs0)
               (rounds gs0) (roundTime gs0)),
            (IoTo (mId d), WordUpdate w)]"
    by blast
  show ?thesis
    apply (rule exI [of _ s'], rule exI [of _ gs'], rule exI [of _ d], rule exI [of _ h])
    using r a(3,7,8) sg by (simp add: gs0_def)
qed


text \<open>
  C1, as the code has it. \<open>startGame\<close> does not look at the number of members. From the host
  of a room in the lobby it is accepted whenever a round can be set up at all (the room has a
  member, \<open>wordLists[difficulty] || wordLists.easy\<close> is a word list that is not empty,
  \<open>Math.random()\<close> is a double in \<open>[0, 1)\<close>, the arrays are shorter than \<open>2^53\<close>): the room
  goes to \<open>playing\<close>, the round state is created with \<open>currentRound = 1\<close>, a drawer is chosen
  among the members, the timer is armed and \<open>roundStarted\<close> is sent. From anyone else, or
  for a room that is not in the lobby, it is a no-op and no error is raised. From the host
  of a room in the lobby with a difficulty that names no word list (an inherited property
  name such as \<open>constructor\<close>, which is truthy and so has no fallback to \<open>easy\<close>), the handler
  throws a \<open>TypeError\<close>.
\<close>

theorem startGame_any_size:
  "(players s sid = Some player \<and> isHost player \<and> rooms s (room player) = Some r
      \<and> state (heap s r) = Lobby \<and> roomPlayers (heap s r) \<noteq> []
      \<and> listFor (sDifficulty st) s = Some wl \<and> wl \<noteq> []
      \<and> length (roomPlayers (heap s r)) < 2 ^ 53 \<and> length wl < 2 ^ 53
      \<and> (\<forall>n. unitDouble (random s n))
    \<longrightarrow> (\<exists>s' gs d h. startGame now sid st s = Inr s'
      \<and> state (heap s' r) = Playing
      \<and> gameState (heap s' r) = Some gs
      \<and> currentRound gs = 1 \<and> rounds gs = sRounds st \<and> roundTime gs = sRoundTime st
      \<and> timer gs = sRoundTime st \<and> scores gs = [] \<and> playersWhoGuessed gs = []
      \<and> allPlayers gs = map mId (roomPlayers (heap s r))
      \<and> d \<in> set (roomPlayers (heap s r)) \<and> currentDrawer gs = Some (mId d)
      \<and> word gs \<in> set wl
      \<and> timerInterval (heap s' r) = Some h
      \<and> timers s' h = Some (now + 1000, Tick r (room player))
      \<and> outbox s' = outbox s @
           [(IoTo (room player), RoundStarted (mId d) (mName d) (mAvatar d) 1 (sRounds st)
               (sRoundTime st)),
            (IoTo (mId d), WordUpdate (word gs))]))
   \<and> (players s sid = None
       \<or> (\<exists>p. players s sid = Some p \<and> (\<not> isHost p \<or> rooms s (room p) = None
             \<or> (\<exists>r. rooms s (room p) = Some r \<and> state (heap s r) \<noteq> Lobby)))
    \<longrightarrow> startGame now sid st s = Inr s)
   \<and> (players s sid = Some player \<and> isHost player \<and> rooms s (room player) = Some r
      \<and> state (heap s r) = Lobby
      \<and> sDifficulty st \<in> set objectPrototypeKeys \<and> wordLists s (sDifficulty st) = None
    \<longrightarrow> startGame now sid st s = Inl TypeError)"
  apply (intro conjI)
  subgoal using startGame_ok [of s sid player r st wl now] by blast
  subgoal using startGame_noop [of s sid now st] by blast
  subgoal
    using startGame_inherited [of s sid player r st now] listFor_inherited [of "sDifficulty st" s]
    by simp
  done

theorem startGame_any_size_witness:
  "players lobby1 ''a'' = Some ann \<and> isHost ann \<and> rooms lobby1 (room ann) = Some 0
   \<and> state (heap lobby1 0) = Lobby \<and> length (roomPlayers (heap lobby1 0)) = 1
   \<and> listFor (sDifficulty demoSettings) lobby1 = Some [''APPLE'', ''House'']
   \<and> (\<forall>n. unitDouble (random lobby1 n))
   \<and> (\<exists>s'. startGame 8000 ''a'' demoSettings lobby1 = Inr s' \<and> state (heap s' 0) = Playing)
   \<and> players lobby1 ''b'' = None
   \<and> startGame 8000 ''b'' demoSettings lobby1 = Inr lobby1
   \<and> ''constructor'' \<in> set objectPrototypeKeys \<and> wordLists lobby1 ''constructor'' = None
   \<and> startGame 8000 ''a'' (demoSettings\<lparr>sDifficulty := ''constructor''\<rparr>) lobby1
       = Inl TypeError"
proof -
  have h1: "players lobby1 ''a'' = Some ann \<and> isHost ann \<and> rooms lobby1 (room ann) = Some 0
    \<and> state (heap lobby1 0) = Lobby \<and> length (roomPlayers (heap lobby1 0)) = 1"
    using lobby1_facts by (simp add: ann_def)
  have h2: "listFor (sDifficulty demoSettings) lobby1 = Some [''APPLE'', ''House'']"
    by (simp add: listFor_def demoSettings_def lobby1_def createRoom_def split_beta Let_def
          emit_def generateRoomCode_state server0_def initial_def demoWords_def)
  have h3: "\<forall>n. unitDouble (random lobby1 n)"
    by (simp add: lobby1_def server0_def initial_def)
  have h4: "players lobby1 ''b'' = None"
    using lobby1_players by simp
  have h5: "roomPlayers (heap lobby1 0) \<noteq> []"
    "length (roomPlayers (heap lobby1 0)) < 2 ^ 53" using h1 by auto
  have h6: "''constructor'' \<in> set objectPrototypeKeys"
    "wordLists lobby1 ''constructor'' = None"
    by (simp_all add: objectPrototypeKeys_def lobby1_def createRoom_def split_beta Let_def
          emit_def generateRoomCode_state server0_def initial_def demoWords_def)
  show ?thesis
    using h1 h2 h3 h4 h5 h6
      startGame_any_size [of lobby1 "''a''" ann 0 demoSettings "[''APPLE'', ''House'']" 8000]
      startGame_any_size [of lobby1 "''b''" ann 0 demoSettings "[''APPLE'', ''House'']" 8000]
      startGame_any_size [of lobby1 "''a''" ann 0 "demoSettings\<lparr>sDifficulty := ''constructor''\<rparr>"
        "[]" 8000]
    by auto
qed

text \<open>
  C1 as stated fails: Ann is alone in her room, in the lobby, and her \<open>startGame\<close> is carried
  out. The room is playing, round 1 has started with Ann as the drawer, and its timer runs.
\<close>

theorem startGame_any_size_counterexample:
  "length (roomPlayers (heap lobby1 0)) = 1 \<and> state (heap lobby1 0) = Lobby
   \<and> (case startGame 8000 ''a'' demoSettings lobby1 of
        Inl e \<Rightarrow> False
      | Inr s \<Rightarrow> state (heap s 0) = Playing
          \<and> map_option currentRound (gameState (heap s 0)) = Some 1
          \<and> map_option currentDrawer (gameState (heap s 0)) = Some (Some ''a'')
          \<and> timerInterval (heap s 0) = Some 0
          \<and> timers s 0 = Some (9000, Tick 0 ''AAAA'')
          \<and> outbox s = outbox lobby1 @
               [(IoTo ''AAAA'', RoundStarted ''a'' ''Ann'' ''cat'' 1 3 60),
                (IoTo ''a'', WordUpdate ''APPLE'')])"
  by code_simp

subsection \<open>Runs of the server\<close>

text \<open>
  C2 fails on the code. In \<open>doubleEnd\<close>, Bob's correct guess at 8500 makes everyone have
  guessed: the round's interval is cleared and \<open>endRound\<close> is scheduled for 10500. Ann, the
  drawer, disconnects at 8800: \<open>endRound\<close> runs at once (round 1 ends, \<open>currentRound\<close>
  becomes 2, \<open>roundEnded\<close> is sent). Nothing cancels the grace timer, so at 10500 \<open>endRound\<close>
  runs again for the same round: \<open>currentRound\<close> becomes 3 and \<open>roundEnded\<close> is sent a
  second time, with only round 1 ever started. When the first of the two scheduled
  \<open>startRound\<close> calls fires, the round that starts is round 3.
\<close>

theorem endRound_twice:
  "(case run (take 5 doubleEnd) server0 of
      Inl e \<Rightarrow> False
    | Inr s \<Rightarrow> map_option currentRound (gameState (heap s 0)) = Some 2
        \<and> roundsEnded (outbox s) = 1 \<and> roundsStarted (outbox s) = [1]
        \<and> timers s 1 = Some (10500, EndRound ''AAAA''))
   \<and> (case run doubleEnd server0 of
      Inl e \<Rightarrow> False
    | Inr s \<Rightarrow> map_option currentRound (gameState (heap s 0)) = Some 3
        \<and> roundsEnded (outbox s) = 2 \<and> roundsStarted (outbox s) = [1]
        \<and> timers s 2 = Some (11800, StartRound ''AAAA'')
        \<and> timers s 3 = Some (13500, StartRound ''AAAA''))
   \<and> (case run (doubleEnd @ [(11800, TimerFires 2)]) server0 of
      Inl e \<Rightarrow> False
    | Inr s \<Rightarrow> roundsStarted (outbox s) = [1, 3])"
  by code_simp

text \<open>
  C4 fails on the code. In \<open>lastLeaves\<close> the last player leaves a room whose round is
  running. The room entry is removed, but the round's interval stays armed and the word
  stays in \<open>activeWords\<close>: \<open>isWordLocked\<close> still answers true, and the next tick of the
  interval still counts down the orphaned room object and sends \<open>timerUpdate\<close> to the
  room code.
\<close>

theorem last_player_leaves:
  "(case run lastLeaves server0 of
      Inl e \<Rightarrow> False
    | Inr s \<Rightarrow> rooms s ''AAAA'' = None \<and> players s ''a'' = None \<and> players s ''b'' = None
        \<and> map_option word (gameState (heap s 0)) = Some ''APPLE''
        \<and> timerInterval (heap s 0) = Some 0
        \<and> timers s 0 = Some (10000, Tick 0 ''AAAA'')
        \<and> isWordLocked 9500 ''APPLE'' s)
   \<and> (case run (lastLeaves @ [(10000, TimerFires 0)]) server0 of
      Inl e \<Rightarrow> False
    | Inr s \<Rightarrow> last (outbox s) = (IoTo ''AAAA'', TimerUpdate 58)
        \<and> timers s 0 = Some (11000, Tick 0 ''AAAA'')
        \<and> isWordLocked 10000 ''APPLE'' s)"
  by code_simp

text \<open>
  C3 fails on the code. \<open>calculateScore\<close> divides first and multiplies after, in doubles:
  with 58 of 100 seconds left the quotient is the double nearest to 0.58, which lies below
  0.58, its product with 100 rounds to a double below 58, and the guesser gets 57 points,
  not \<open>\<lfloor>100 * 58 / 100\<rfloor> = 58\<close>; the drawer gets 28, not 29. In \<open>slowGuess\<close> this
  happens on the server. The example of the specification (45 of 60 seconds: 75 and 37)
  does hold.
\<close>

theorem calculateScore_rounds_down:
  "calculateScore (num 58) (num 100) = Fin 57
   \<and> (100 * 58) div 100 = (58 :: int)
   \<and> (case run slowGuess server0 of
        Inl e \<Rightarrow> False
      | Inr s \<Rightarrow> map_option timer (gameState (heap s 0)) = Some 58
          \<and> map_option roundTime (gameState (heap s 0)) = Some 100
          \<and> map_option scores (gameState (heap s 0)) = Some [(''b'', Fin 57), (''a'', Fin 28)])
   \<and> calculateScore (num 45) (num 60) = Fin 75
   \<and> Math_floor (js_mul (Fin 75) (rnd (1 / 2))) = Fin 37"
  by code_simp

subsection \<open>Masking and the correctGuess messages\<close>

lemma num_nat:
  assumes "(n :: nat) < 2 ^ 53"
  shows "num (int n) = Fin (of_nat n)"
proof -
  have "int n < 2 ^ 53" using assms by (metis of_nat_less_numeral_power_cancel_iff)
  then show ?thesis by (simp add: num_exact)
qed

lemma js_lt_count:
  assumes "length revealed < 2 ^ 53"
  shows "js_lt (num (int (length revealed))) (Fin (of_nat K)) \<longleftrightarrow> length revealed < K"
proof -
  have "int (length revealed) < 2 ^ 53"
    using assms by (metis of_nat_less_numeral_power_cancel_iff)
  then show ?thesis by (simp add: num_exact)
qed

lemma maskLoop_result:
  assumes "maskLoop rng n rc revealed k = Some y"
  shows "\<forall>K. rc = Fin (of_nat K) \<and> K < 2 ^ 53 \<and> distinct revealed \<and> length revealed \<le> K \<longrightarrow>
      distinct (fst y) \<and> length (fst y) = K \<and> k \<le> snd y
      \<and> set (fst y) = set revealed \<union> posAt rng n ` {k..<snd y}
      \<and> (\<exists>ys. fst y = revealed @ ys)"
proof (rule maskLoop.raw_induct
        [where P = "\<lambda>rng n rc revealed k y. \<forall>K. rc = Fin (of_nat K) \<and> K < 2 ^ 53
             \<and> distinct revealed \<and> length revealed \<le> K \<longrightarrow>
      distinct (fst y) \<and> length (fst y) = K \<and> k \<le> snd y
      \<and> set (fst y) = set revealed \<union> posAt rng n ` {k..<snd y}
      \<and> (\<exists>ys. fst y = revealed @ ys)", OF _ assms], goal_cases)
  case (1 loop rng n rc revealed k y)
  show ?case
  proof (intro allI impI, elim conjE)
    fix K
    assume K: "rc = Fin (of_nat K)" "K < 2 ^ 53" "distinct revealed" "length revealed \<le> K"
    then have lt: "length revealed < 2 ^ 53" by simp
    show "distinct (fst y) \<and> length (fst y) = K \<and> k \<le> snd y
      \<and> set (fst y) = set revealed \<union> posAt rng n ` {k..<snd y}
      \<and> (\<exists>ys. fst y = revealed @ ys)"
    proof (cases "length revealed < K")
      case False
      then have "y = (revealed, k)" using 1(2) K(1) js_lt_count [OF lt, of K] by simp
      then show ?thesis using False K by simp
    next
      case True
      let ?r = "if posAt rng n k \<in> set revealed then revealed else revealed @ [posAt rng n k]"
      have call: "loop rng n rc ?r (k + 1) = Some y"
        using 1(2) K(1) js_lt_count [OF lt, of K] True by simp
      have "distinct ?r" "length ?r \<le> K" using K True by auto
      with 1(1) [OF call] K(1,2)
      have r: "distinct (fst y)" "length (fst y) = K" "k + 1 \<le> snd y"
        "set (fst y) = set ?r \<union> posAt rng n ` {k + 1..<snd y}" "\<exists>ys. fst y = ?r @ ys"
        by blast+
      have "{k..<snd y} = insert k {k + 1..<snd y}" using r(3) by auto
      then have "set (fst y) = set revealed \<union> posAt rng n ` {k..<snd y}"
        using r(4) by auto
      moreover have "\<exists>ys. fst y = revealed @ ys" using r(5) by (auto split: if_splits)
      ultimately show ?thesis using r by simp
    qed
  qed
qed

lemma maskLoop_returns:
  assumes "K \<le> card (set revealed \<union> posAt rng n ` {k..<j})" "K < 2 ^ 53"
    "distinct revealed" "length revealed \<le> K"
  shows "\<exists>y. maskLoop rng n (Fin (of_nat K)) revealed k = Some y"
  using assms
proof (induction "j - k" arbitrary: revealed k)
  case 0
  then have "K \<le> card (set revealed)" by simp
  then have "\<not> length revealed < K" using 0 by (simp add: distinct_card)
  moreover have "length revealed < 2 ^ 53" using 0 by simp
  ultimately show ?case
    by (subst maskLoop.simps) (simp add: js_lt_count)
next
  case (Suc d)
  have lt: "length revealed < 2 ^ 53" using Suc by simp
  show ?case
  proof (cases "length revealed < K")
    case False
    then show ?thesis by (subst maskLoop.simps) (simp add: js_lt_count [OF lt])
  next
    case True
    let ?r = "if posAt rng n k \<in> set revealed then revealed else revealed @ [posAt rng n k]"
    have "k < j" using Suc(2) by simp
    then have "{k..<j} = insert k {k + 1..<j}" by auto
    then have "set ?r \<union> posAt rng n ` {k + 1..<j} = set revealed \<union> posAt rng n ` {k..<j}"
      by auto
    then have a: "K \<le> card (set ?r \<union> posAt rng n ` {k + 1..<j})" using Suc(3) by simp
    have b: "distinct ?r" "length ?r \<le> K" using Suc True by auto
    have "d = j - (k + 1)" using Suc(2) by simp
    from Suc(1) [OF this a Suc(4) b]
    obtain y where "maskLoop rng n (Fin (of_nat K)) ?r (k + 1) = Some y" by blast
    then show ?thesis
      by (subst maskLoop.simps) (simp add: js_lt_count [OF lt] True)
  qed
qed


lemma three_tenths:
  "rnd (3 / 10) = Fin (5404319552844595 / 18014398509481984)"
  "unitDouble (5404319552844595 / 18014398509481984)"
  unfolding unitDouble_def by code_simp+

lemma revealCountOf_range:
  assumes "0 < n" "n < 2 ^ 53"
  shows "\<exists>K. revealCountOf n = Fin (of_nat K) \<and> 1 \<le> K \<and> K < 2 ^ 53 \<and> (2 \<le> n \<longrightarrow> K < n)"
proof -
  let ?c = "5404319552844595 / 18014398509481984 :: rat"
  have n: "0 < int n" "int n < 2 ^ 53"
    using assms by simp (metis assms(2) of_nat_less_numeral_power_cancel_iff)
  have "js_mul (num (int n)) (rnd (3 / 10)) = js_mul (Fin ?c) (num (int n))"
    using n by (simp add: three_tenths(1) num_exact mult.commute)
  with index_range [OF three_tenths(2) n] obtain i where
    i: "Math_floor (js_mul (num (int n)) (rnd (3 / 10))) = Fin (of_int i)" "0 \<le> i" "i < int n"
    by auto
  define K where "K = nat (max 1 i)"
  have "revealCountOf n = Fin (of_nat K)"
    using i by (auto simp: revealCountOf_def K_def max_def)
  moreover have "1 \<le> K" "2 \<le> n \<longrightarrow> K < n" "K < 2 ^ 53"
    using i assms by (auto simp: K_def max_def)
  ultimately show ?thesis by blast
qed

lemma posAt_range:
  assumes "unitDouble (rng k)" "0 < n" "n < 2 ^ 53"
  shows "posAt rng n k \<in> (\<lambda>i. num (int i)) ` {..<n}"
proof -
  have n: "0 < int n" "int n < 2 ^ 53"
    using assms by simp (metis assms(3) of_nat_less_numeral_power_cancel_iff)
  from index_range [OF assms(1) n] obtain i where
    i: "posAt rng n k = Fin (of_int i)" "0 \<le> i" "i < int n"
    by (auto simp: posAt_def)
  have "num (int (nat i)) = Fin (of_int i)" using i n by (simp add: num_exact)
  moreover have "nat i < n" using i by simp
  ultimately show ?thesis using i(1) by (metis imageI lessThan_iff)
qed

lemma num_inj:
  "inj_on (\<lambda>i. num (int i)) {..<2 ^ 53}"
proof (rule inj_onI)
  fix x y :: nat
  assume "x \<in> {..<2 ^ 53}" "y \<in> {..<2 ^ 53}" "num (int x) = num (int y)"
  then show "x = y" by (simp add: num_nat)
qed

lemma lettersShown_count:
  assumes "distinct revealed" "set revealed \<subseteq> (\<lambda>i. num (int i)) ` {..<length w}"
    "length w < 2 ^ 53"
  shows "length (lettersShown w revealed) = length revealed"
proof -
  let ?f = "\<lambda>i. num (int i)"
  let ?A = "{i. i < length w \<and> ?f i \<in> set revealed}"
  have sub: "{..<length w} \<subseteq> {..<2 ^ 53}" using assms(3) by auto
  have inj: "inj_on ?f ?A" by (rule inj_on_subset [OF num_inj]) (use sub in auto)
  have img: "?f ` ?A = set revealed" using assms(2) by auto
  have "length (lettersShown w revealed) = card ?A"
    unfolding lettersShown_def
    by (subst distinct_length_filter) (auto intro: arg_cong [where f = card])
  also have "\<dots> = card (?f ` ?A)" using card_image [OF inj] by simp
  also have "\<dots> = length revealed" using img assms(1) by (simp add: distinct_card)
  finally show ?thesis .
qed

lemma joinWith_nth:
  "\<forall>x \<in> set xs. length x = 1 \<Longrightarrow> i < length xs \<Longrightarrow> joinWith [c] xs ! (2 * i) = hd (xs ! i)"
proof (induction "[c]" xs arbitrary: i rule: joinWith.induct)
  case 1
  then show ?case by simp
next
  case (2 x)
  then show ?case by (cases x) auto
next
  case (3 x y ys)
  show ?case
  proof (cases i)
    case 0
    then show ?thesis using 3(2) by (cases x) auto
  next
    case (Suc j)
    have "length x = 1" using 3(2) by simp
    then obtain a where x: "x = [a]" by (cases x) auto
    have "joinWith [c] (y # ys) ! (2 * j) = hd ((y # ys) ! j)"
      using 3 Suc by (intro 3(1)) auto
    then show ?thesis using Suc x by simp
  qed
qed

lemma renderMask_nth:
  assumes "i < length w"
  shows "renderMask w revealed ! (2 * i)
       = (if i \<in> set (lettersShown w revealed) then w ! i else CHR ''_'')"
  unfolding renderMask_def
  using assms
  by (subst joinWith_nth) (auto simp: split_beta lettersShown_def)

lemma maskWord_result:
  assumes "maskWord w s = Some (m, s')" "w \<noteq> []" "length w < 2 ^ 53"
    "\<forall>k. unitDouble (random s k)"
  shows "\<exists>revealed K. m = renderMask w revealed
      \<and> revealCountOf (length w) = Fin (of_nat K) \<and> 1 \<le> K \<and> (2 \<le> length w \<longrightarrow> K < length w)
      \<and> length revealed = K \<and> distinct revealed \<and> hd revealed = Fin 0
      \<and> set revealed \<subseteq> (\<lambda>i. num (int i)) ` {..<length w}
      \<and> set revealed = hits (random s) (length w) (drawn s) (drawn s')"
proof -
  have n: "0 < length w" using assms(2) by simp
  from revealCountOf_range [OF n assms(3)] obtain K where
    K: "revealCountOf (length w) = Fin (of_nat K)" "1 \<le> K" "K < 2 ^ 53"
       "2 \<le> length w \<longrightarrow> K < length w"
    by blast
  from assms(1,2) obtain revealed k where
    l: "maskLoop (random s) (length w) (Fin (of_nat K)) [Fin 0] (drawn s) = Some (revealed, k)"
       "m = renderMask w revealed" "s' = s\<lparr>drawn := k\<rparr>"
    by (auto simp: maskWord_def K(1) split: option.splits)
  from maskLoop_result [OF l(1)] K(2,3)
  have r: "distinct revealed" "length revealed = K"
    "set revealed = set [Fin 0] \<union> posAt (random s) (length w) ` {drawn s..<k}"
    "\<exists>ys. revealed = [Fin 0] @ ys"
    by fastforce+
  have "num (int 0) = Fin 0" by (simp add: num_exact)
  then have z: "Fin 0 \<in> (\<lambda>i. num (int i)) ` {..<length w}"
    using n by (metis (mono_tags) imageI lessThan_iff)
  have "set revealed \<subseteq> (\<lambda>i. num (int i)) ` {..<length w}"
    using r(3) z posAt_range [OF _ n assms(3)] assms(4) by auto
  moreover have "hd revealed = Fin 0" using r(4) by auto
  moreover have "set revealed = hits (random s) (length w) (drawn s) (drawn s')"
    using r(3) l(3) by (simp add: hits_def)
  ultimately show ?thesis using K l(2) r(1,2) by blast
qed

lemma revealCountOf_unique:
  "revealCountOf n = Fin (of_nat K) \<Longrightarrow> revealCountOf n = Fin (of_nat K') \<Longrightarrow> K = K'"
  by simp

lemma maskWord_returns:
  assumes "length w < 2 ^ 53" "revealCountOf (length w) = Fin (of_nat K)"
    "K \<le> card (hits (random s) (length w) (drawn s) j)"
  shows "maskWord w s \<noteq> None"
proof (cases "w = []")
  case True
  then show ?thesis by (simp add: maskWord_def)
next
  case False
  then have "0 < length w" by simp
  from revealCountOf_range [OF this assms(1)] assms(2)
  have K: "1 \<le> K" "K < 2 ^ 53" by auto
  have "K \<le> card (set [Fin 0] \<union> posAt (random s) (length w) ` {drawn s..<j})"
    using assms(3) by (simp add: hits_def)
  from maskLoop_returns [OF this K(2)] K(1)
  obtain y where "maskLoop (random s) (length w) (Fin (of_nat K)) [Fin 0] (drawn s) = Some y"
    by auto
  then show ?thesis using assms(2) by (auto simp: maskWord_def split: prod.splits)
qed

lemma maskWord_outbox: "maskWord w s = Some (m, s') \<Longrightarrow> outbox s' = outbox s"
  by (auto simp: maskWord_def split: option.splits if_splits)

lemma maskWord_cong:
  "random s1 = random s \<Longrightarrow> drawn s1 = drawn s \<Longrightarrow>
   map_option fst (maskWord w s1) = map_option fst (maskWord w s)"
  by (auto simp: maskWord_def split: option.splits)

lemma correctGuess_outcome:
  "(2 < length (roomPlayers (heap s r)) \<and> maskWord (word gs) s = None
      \<and> correctGuess now sid player r gs s = Inl NoReturn)
   \<or> (\<exists>s' shown. correctGuess now sid player r gs s = Inr s'
        \<and> outbox s' = outbox s @
           [(IoTo sid, CorrectGuess (name player) (word gs) True
               (calculateScore (num (timer gs)) (num (roundTime gs)))),
            (SocketTo sid (room player), CorrectGuess (name player) shown False
               (calculateScore (num (timer gs)) (num (roundTime gs))))]
        \<and> (length (roomPlayers (heap s r)) \<le> 2 \<longrightarrow> shown = word gs)
        \<and> (2 < length (roomPlayers (heap s r))
              \<longrightarrow> (\<exists>s2. maskWord (word gs) s = Some (shown, s2))))"
proof (cases "2 < length (roomPlayers (heap s r))")
  case False
  then show ?thesis
    by (auto simp: correctGuess_def Let_def setRoom_def emit_def setTimer_def clearInterval_def
          split: if_splits option.splits)
next
  case True
  define s1 where "s1 = setRoom r ((heap s r)\<lparr>gameState := Some (gs\<lparr>scores :=
        (case currentDrawer gs of
           None \<Rightarrow> assign ''undefined''
             (js_add (orZero (map_of (assign sid (js_add (orZero (map_of (scores gs) sid))
                 (calculateScore (num (timer gs)) (num (roundTime gs)))) (scores gs)) ''undefined''))
               (Math_floor (js_mul (calculateScore (num (timer gs)) (num (roundTime gs)))
                 (rnd (1 / 2)))))
             (assign sid (js_add (orZero (map_of (scores gs) sid))
                 (calculateScore (num (timer gs)) (num (roundTime gs)))) (scores gs))
         | Some d \<Rightarrow> assign d
             (js_add (orZero (map_of (assign sid (js_add (orZero (map_of (scores gs) sid))
                 (calculateScore (num (timer gs)) (num (roundTime gs)))) (scores gs)) d))
               (Math_floor (js_mul (calculateScore (num (timer gs)) (num (roundTime gs)))
                 (rnd (1 / 2)))))
             (assign sid (js_add (orZero (map_of (scores gs) sid))
                 (calculateScore (num (timer gs)) (num (roundTime gs)))) (scores gs))),
        playersWhoGuessed := playersWhoGuessed gs @ [sid]\<rparr>)\<rparr>) s"
  have len: "2 < length (roomPlayers (heap s1 r))" "outbox s1 = outbox s"
    "random s1 = random s" "drawn s1 = drawn s"
    using True by (simp_all add: s1_def setRoom_def)
  note cong = maskWord_cong [OF len(3,4), of "word gs"]
  show ?thesis
  proof (cases "maskWord (word gs) s1")
    case None
    then have "correctGuess now sid player r gs s = Inl NoReturn"
      using len(1) by (simp add: correctGuess_def Let_def s1_def [symmetric])
    moreover have "maskWord (word gs) s = None" using None cong by simp
    ultimately show ?thesis using True by simp
  next
    case (Some a)
    then obtain m s2 where m: "maskWord (word gs) s1 = Some (m, s2)" by (cases a) auto
    have out: "outbox s2 = outbox s" using maskWord_outbox [OF m] len(2) by simp
    have "\<exists>s'. correctGuess now sid player r gs s = Inr s' \<and> outbox s' = outbox s @
      [(IoTo sid, CorrectGuess (name player) (word gs) True
          (calculateScore (num (timer gs)) (num (roundTime gs)))),
       (SocketTo sid (room player), CorrectGuess (name player) m False
          (calculateScore (num (timer gs)) (num (roundTime gs))))]"
      using len(1) m out
      by (auto simp: correctGuess_def Let_def s1_def [symmetric] emit_def setTimer_def
            clearInterval_def split: if_splits option.splits)
    moreover have "\<exists>s2. maskWord (word gs) s = Some (m, s2)"
      using m cong by (cases "maskWord (word gs) s") auto
    ultimately show ?thesis using True by auto
  qed
qed

lemma submitGuess_correct:
  assumes "players s sid = Some player"
    "allowed (fst (checkCooldown now sid Guess (guard s)))"
    "rooms s (room player) = Some r" "state (heap s r) = Playing"
    "gameState (heap s r) = Some gs" "Some sid \<noteq> currentDrawer gs"
    "sid \<notin> set (playersWhoGuessed gs)" "toLowerCase g = toLowerCase (word gs)"
  shows "submitGuess now sid g s
    = correctGuess now sid player r gs (s\<lparr>guard := snd (checkCooldown now sid Guess (guard s))\<rparr>)"
  using assms by (simp add: submitGuess_def split_beta Let_def)

lemma joinWith_length:
  "\<forall>x \<in> set xs. length x = 1 \<Longrightarrow> xs \<noteq> [] \<Longrightarrow>
   length (joinWith [c] xs) = 2 * length xs - 1"
  by (induction "[c]" xs rule: joinWith.induct) auto

lemma renderMask_length:
  "w \<noteq> [] \<Longrightarrow> length (renderMask w revealed) = 2 * length w - 1"
  unfolding renderMask_def
  by (subst joinWith_length) (auto simp: split_beta)

lemma renderMask_differs: "2 \<le> length w \<Longrightarrow> renderMask w revealed \<noteq> w"
proof
  assume a: "2 \<le> length w" "renderMask w revealed = w"
  then have "w \<noteq> []" by auto
  from renderMask_length [OF this, of revealed] a show False by simp
qed

lemma masked_rendering:
  assumes "maskWord w s = Some (shown, s2)" "w \<noteq> []" "length w < 2 ^ 53"
    "\<forall>k. unitDouble (random s k)"
  shows "\<exists>revealed K j. shown = renderMask w revealed
           \<and> revealCountOf (length w) = Fin (of_nat K)
           \<and> K \<le> card (hits (random s) (length w) (drawn s) j)
           \<and> length (lettersShown w revealed) = K
           \<and> 0 \<in> set (lettersShown w revealed)
           \<and> (\<forall>i<length w. shown ! (2 * i)
                 = (if i \<in> set (lettersShown w revealed) then w ! i else CHR ''_''))
           \<and> (2 \<le> length w \<longrightarrow> K < length w \<and> shown \<noteq> w)"
proof -
  from maskWord_result [OF assms] obtain revealed K where
    r: "shown = renderMask w revealed" "revealCountOf (length w) = Fin (of_nat K)" "1 \<le> K"
      "2 \<le> length w \<longrightarrow> K < length w" "length revealed = K" "distinct revealed"
      "hd revealed = Fin 0" "set revealed \<subseteq> (\<lambda>i. num (int i)) ` {..<length w}"
      "set revealed = hits (random s) (length w) (drawn s) (drawn s2)"
    by blast
  have c: "K \<le> card (hits (random s) (length w) (drawn s) (drawn s2))"
    using r(5,6,9) by (metis distinct_card order_refl)
  have n: "length (lettersShown w revealed) = K"
    using lettersShown_count [OF r(6,8) assms(3)] r(5) by simp
  have "revealed \<noteq> []" using r(3,5) by auto
  then have "Fin 0 \<in> set revealed" using r(7) by (metis hd_in_set)
  moreover have "num (int 0) = Fin 0" by (simp add: num_exact)
  ultimately have z: "0 \<in> set (lettersShown w revealed)"
    using assms(2) by (simp add: lettersShown_def)
  have d: "2 \<le> length w \<longrightarrow> shown \<noteq> w" using r(1) renderMask_differs [of w revealed] by simp
  have "\<forall>i<length w. shown ! (2 * i)
                 = (if i \<in> set (lettersShown w revealed) then w ! i else CHR ''_'')"
    using r(1) renderMask_nth by blast
  then show ?thesis using r(1,2,4) c n z d by blast
qed

text \<open>
  C6, as the code has it. An accepted correct guess sends exactly two \<open>correctGuess\<close>
  messages: one to the guesser, with the literal word, and one to the rest of the room.
  In a room of at most two players the second carries the literal word too. In a larger
  room it carries the masked rendering: of the \<open>n\<close> letters exactly
  \<open>Math.max(1, Math.floor(n * 0.3))\<close> are shown, the first among them, and every other
  letter is an underscore, so for \<open>n \<ge> 2\<close> at least one letter is hidden. The handler
  returns unless the room has more than two players and the random source never produces
  that many distinct positions (position 0 included); then \<open>maskWord\<close> loops for ever.
\<close>

theorem correctGuess_audience:
  assumes "players s sid = Some player"
    "allowed (fst (checkCooldown now sid Guess (guard s)))"
    "rooms s (room player) = Some r" "state (heap s r) = Playing"
    "gameState (heap s r) = Some gs" "Some sid \<noteq> currentDrawer gs"
    "sid \<notin> set (playersWhoGuessed gs)" "toLowerCase g = toLowerCase (word gs)"
    "\<forall>k. unitDouble (random s k)" "length (word gs) < 2 ^ 53"
  shows "(submitGuess now sid g s = Inl NoReturn
          \<and> 2 < length (roomPlayers (heap s r)) \<and> word gs \<noteq> []
          \<and> \<not> (\<exists>K j. revealCountOf (length (word gs)) = Fin (of_nat K)
                  \<and> K \<le> card (hits (random s) (length (word gs)) (drawn s) j)))
    \<or> (\<exists>s' shown. submitGuess now sid g s = Inr s'
        \<and> outbox s' = outbox s @
            [(IoTo sid, CorrectGuess (name player) (word gs) True
                (calculateScore (num (timer gs)) (num (roundTime gs)))),
             (SocketTo sid (room player), CorrectGuess (name player) shown False
                (calculateScore (num (timer gs)) (num (roundTime gs))))]
        \<and> (length (roomPlayers (heap s r)) \<le> 2 \<longrightarrow> shown = word gs)
        \<and> (2 < length (roomPlayers (heap s r)) \<and> word gs \<noteq> []
            \<longrightarrow> (\<exists>revealed K j. shown = renderMask (word gs) revealed
                   \<and> revealCountOf (length (word gs)) = Fin (of_nat K)
                   \<and> K \<le> card (hits (random s) (length (word gs)) (drawn s) j)
                   \<and> length (lettersShown (word gs) revealed) = K
                   \<and> 0 \<in> set (lettersShown (word gs) revealed)
                   \<and> (\<forall>i<length (word gs). shown ! (2 * i)
                         = (if i \<in> set (lettersShown (word gs) revealed)
                            then word gs ! i else CHR ''_''))
                   \<and> (2 \<le> length (word gs) \<longrightarrow> K < length (word gs) \<and> shown \<noteq> word gs))))"
proof -
  let ?s0 = "s\<lparr>guard := snd (checkCooldown now sid Guess (guard s))\<rparr>"
  let ?w = "word gs"
  have eq: "submitGuess now sid g s = correctGuess now sid player r gs ?s0"
    by (rule submitGuess_correct [OF assms(1-8)])
  have rng: "\<forall>k. unitDouble (random ?s0 k)" using assms(9) by simp
  from correctGuess_outcome [of ?s0 r gs now sid player]
  consider (loop) "2 < length (roomPlayers (heap s r))" "maskWord ?w ?s0 = None"
      "submitGuess now sid g s = Inl NoReturn"
    | (ret) s' shown where "submitGuess now sid g s = Inr s'"
      "outbox s' = outbox s @
            [(IoTo sid, CorrectGuess (name player) (word gs) True
                (calculateScore (num (timer gs)) (num (roundTime gs)))),
             (SocketTo sid (room player), CorrectGuess (name player) shown False
                (calculateScore (num (timer gs)) (num (roundTime gs))))]"
      "length (roomPlayers (heap s r)) \<le> 2 \<longrightarrow> shown = word gs"
      "2 < length (roomPlayers (heap s r)) \<longrightarrow> (\<exists>s2. maskWord ?w ?s0 = Some (shown, s2))"
    unfolding eq by auto
  then show ?thesis
  proof cases
    case loop
    have ne: "?w \<noteq> []" using loop(2) by (auto simp: maskWord_def)
    have "\<not> (\<exists>K j. revealCountOf (length ?w) = Fin (of_nat K)
                  \<and> K \<le> card (hits (random s) (length ?w) (drawn s) j))"
      using maskWord_returns [OF assms(10), of _ ?s0] loop(2) by auto
    then show ?thesis using loop ne by blast
  next
    case ret
    have "2 < length (roomPlayers (heap s r)) \<and> word gs \<noteq> []
            \<longrightarrow> (\<exists>revealed K j. shown = renderMask (word gs) revealed
                   \<and> revealCountOf (length (word gs)) = Fin (of_nat K)
                   \<and> K \<le> card (hits (random s) (length (word gs)) (drawn s) j)
                   \<and> length (lettersShown (word gs) revealed) = K
                   \<and> 0 \<in> set (lettersShown (word gs) revealed)
                   \<and> (\<forall>i<length (word gs). shown ! (2 * i)
                         = (if i \<in> set (lettersShown (word gs) revealed)
                            then word gs ! i else CHR ''_''))
                   \<and> (2 \<le> length (word gs) \<longrightarrow> K < length (word gs) \<and> shown \<noteq> word gs))"
    proof (intro impI, elim conjE)
      assume "2 < length (roomPlayers (heap s r))" "word gs \<noteq> []"
      with ret(4) obtain s2 where "maskWord ?w ?s0 = Some (shown, s2)" by blast
      from masked_rendering [OF this \<open>word gs \<noteq> []\<close> assms(10) rng]
      show "\<exists>revealed K j. shown = renderMask (word gs) revealed
                   \<and> revealCountOf (length (word gs)) = Fin (of_nat K)
                   \<and> K \<le> card (hits (random s) (length (word gs)) (drawn s) j)
                   \<and> length (lettersShown (word gs) revealed) = K
                   \<and> 0 \<in> set (lettersShown (word gs) revealed)
                   \<and> (\<forall>i<length (word gs). shown ! (2 * i)
                         = (if i \<in> set (lettersShown (word gs) revealed)
                            then word gs ! i else CHR ''_''))
                   \<and> (2 \<le> length (word gs) \<longrightarrow> K < length (word gs) \<and> shown \<noteq> word gs)"
        by simp
    qed
    with ret(1,2,3) show ?thesis by blast
  qed
qed

lemma num_1: "num 1 = Fin 1"
  by code_simp

lemma revealCountOf_8: "revealCountOf (length ''Elephant'') = Fin 2"
  by code_simp

lemma revealCountOf_1: "revealCountOf (length ''A'') = Fin 1"
  by code_simp

lemma posAt_dice: "posAt dice (length ''Elephant'') 6 = Fin 4"
  by code_simp

lemma unitDouble_dice: "unitDouble (dice k)"
  by (simp add: dice_def)

lemma hits_dice: "2 \<le> card (hits dice (length ''Elephant'') 6 7)"
proof -
  have "{6..<7::nat} = {6}" by auto
  then have "hits dice (length ''Elephant'') 6 7 = {Fin 0, Fin 4}"
    unfolding hits_def by (simp only: image_insert image_empty posAt_dice)
  then show ?thesis by simp
qed

lemma maskWord_short:
  assumes "revealCountOf (length w) = Fin 1"
  shows "maskWord w s = Some (if w = [] then [] else renderMask w [Fin 0], s)"
proof -
  have "maskLoop (random s) (length w) (Fin 1) [Fin 0] (drawn s) = Some ([Fin 0], drawn s)"
    by (subst maskLoop.simps) (simp add: num_1)
  then show ?thesis
    using assms by (simp add: maskWord_def)
qed

lemma trio_run:
  "(case run [(5000, CreateRoom ''a'' ''Ann'' ''cat''),
              (6000, JoinRoom ''b'' ''AAAA'' ''Bob'' ''dog''),
              (6500, JoinRoom ''c'' ''AAAA'' ''Cy'' ''fox''),
              (8000, StartGame ''a'' demoSettings)] (initial longWords dice) of
      Inl e \<Rightarrow> False
    | Inr s \<Rightarrow> players s ''c'' = Some cy
        \<and> allowed (fst (checkCooldown 8500 ''c'' Guess (guard s)))
        \<and> rooms s (room cy) = Some 0 \<and> state (heap s 0) = Playing
        \<and> length (roomPlayers (heap s 0)) = 3 \<and> drawn s = 6
        \<and> (case gameState (heap s 0) of
              None \<Rightarrow> False
            | Some gs \<Rightarrow> currentDrawer gs = Some ''b'' \<and> ''c'' \<notin> set (playersWhoGuessed gs)
                \<and> toLowerCase ''elephant'' = toLowerCase (word gs)
                \<and> word gs = ''Elephant''))"
  by code_simp

lemma trio_facts:
  "players trio ''c'' = Some cy \<and> allowed (fst (checkCooldown 8500 ''c'' Guess (guard trio)))
   \<and> rooms trio (room cy) = Some 0 \<and> state (heap trio 0) = Playing
   \<and> gameState (heap trio 0) \<noteq> None
   \<and> Some ''c'' \<noteq> currentDrawer (the (gameState (heap trio 0)))
   \<and> ''c'' \<notin> set (playersWhoGuessed (the (gameState (heap trio 0))))
   \<and> toLowerCase ''elephant'' = toLowerCase (word (the (gameState (heap trio 0))))
   \<and> word (the (gameState (heap trio 0))) = ''Elephant''
   \<and> length (roomPlayers (heap trio 0)) = 3 \<and> drawn trio = 6 \<and> random trio = dice"
proof -
  let ?es = "[(5000, CreateRoom ''a'' ''Ann'' ''cat''),
              (6000, JoinRoom ''b'' ''AAAA'' ''Bob'' ''dog''),
              (6500, JoinRoom ''c'' ''AAAA'' ''Cy'' ''fox''),
              (8000, StartGame ''a'' demoSettings)]"
  have "run ?es (initial longWords dice) = Inr trio"
    using trio_run unfolding trio_def by (auto split: sum.splits)
  from random_run [OF this] have "random trio = dice" by (simp add: initial_def)
  then show ?thesis
    using trio_run unfolding trio_def
    by (auto split: sum.splits option.splits)
qed

theorem correctGuess_audience_witness:
  "players trio ''c'' = Some cy \<and> allowed (fst (checkCooldown 8500 ''c'' Guess (guard trio)))
   \<and> rooms trio (room cy) = Some 0 \<and> state (heap trio 0) = Playing
   \<and> gameState (heap trio 0) = Some (the (gameState (heap trio 0)))
   \<and> Some ''c'' \<noteq> currentDrawer (the (gameState (heap trio 0)))
   \<and> ''c'' \<notin> set (playersWhoGuessed (the (gameState (heap trio 0))))
   \<and> toLowerCase ''elephant'' = toLowerCase (word (the (gameState (heap trio 0))))
   \<and> (\<forall>k. unitDouble (random trio k))
   \<and> word (the (gameState (heap trio 0))) = ''Elephant''
   \<and> 2 < length (roomPlayers (heap trio 0))
   \<and> revealCountOf (length ''Elephant'') = Fin (of_nat 2)
   \<and> 2 \<le> card (hits (random trio) (length ''Elephant'') (drawn trio) 7)
   \<and> (\<exists>s' shown revealed. submitGuess 8500 ''c'' ''elephant'' trio = Inr s'
        \<and> outbox s' = outbox trio @
            [(IoTo ''c'', CorrectGuess ''Cy'' ''Elephant'' True
                (calculateScore (num (timer (the (gameState (heap trio 0)))))
                   (num (roundTime (the (gameState (heap trio 0))))))),
             (SocketTo ''c'' ''AAAA'', CorrectGuess ''Cy'' shown False
                (calculateScore (num (timer (the (gameState (heap trio 0)))))
                   (num (roundTime (the (gameState (heap trio 0)))))))]
        \<and> shown = renderMask ''Elephant'' revealed
        \<and> length (lettersShown ''Elephant'' revealed) = 2
        \<and> shown ! 0 = CHR ''E'' \<and> shown \<noteq> ''Elephant'')"
proof -
  let ?gs = "the (gameState (heap trio 0))"
  note f = trio_facts
  have h5: "gameState (heap trio 0) = Some ?gs"
    using f by auto
  have h1: "players trio ''c'' = Some cy"
    "allowed (fst (checkCooldown 8500 ''c'' Guess (guard trio)))"
    "rooms trio (room cy) = Some 0" "state (heap trio 0) = Playing"
    "Some ''c'' \<noteq> currentDrawer ?gs"
    "''c'' \<notin> set (playersWhoGuessed ?gs)"
    "toLowerCase ''elephant'' = toLowerCase (word ?gs)"
    using f by blast+
  have w: "word ?gs = ''Elephant''" "length (roomPlayers (heap trio 0)) = 3"
    "drawn trio = 6" "random trio = dice"
    using f by blast+
  have h9: "\<forall>k. unitDouble (random trio k)" using w(4) unitDouble_dice by simp
  have h10: "length (word ?gs) < 2 ^ 53" using w(1) by simp
  have rc: "revealCountOf (length ''Elephant'') = Fin (of_nat 2)"
    using revealCountOf_8 by simp
  have cov: "2 \<le> card (hits (random trio) (length ''Elephant'') (drawn trio) 7)"
    unfolding w(3) w(4) by (rule hits_dice)
  have "\<not> (\<not> (\<exists>K j. revealCountOf (length (word ?gs)) = Fin (of_nat K)
            \<and> K \<le> card (hits (random trio) (length (word ?gs)) (drawn trio) j)))"
    using rc cov unfolding w(1) by blast
  with correctGuess_audience [OF h1(1-4) h5 h1(5-7) h9 h10]
  obtain s' shown where sh: "submitGuess 8500 ''c'' ''elephant'' trio = Inr s'"
    "outbox s' = outbox trio @
      [(IoTo ''c'', CorrectGuess (name cy) (word ?gs) True
          (calculateScore (num (timer ?gs)) (num (roundTime ?gs)))),
       (SocketTo ''c'' (room cy), CorrectGuess (name cy) shown False
          (calculateScore (num (timer ?gs)) (num (roundTime ?gs))))]"
    "2 < length (roomPlayers (heap trio 0)) \<and> word ?gs \<noteq> []
        \<longrightarrow> (\<exists>revealed K j. shown = renderMask (word ?gs) revealed
               \<and> revealCountOf (length (word ?gs)) = Fin (of_nat K)
               \<and> K \<le> card (hits (random trio) (length (word ?gs)) (drawn trio) j)
               \<and> length (lettersShown (word ?gs) revealed) = K
               \<and> 0 \<in> set (lettersShown (word ?gs) revealed)
               \<and> (\<forall>i<length (word ?gs). shown ! (2 * i)
                     = (if i \<in> set (lettersShown (word ?gs) revealed)
                        then word ?gs ! i else CHR ''_''))
               \<and> (2 \<le> length (word ?gs) \<longrightarrow> K < length (word ?gs) \<and> shown \<noteq> word ?gs))"
    by blast
  from sh(3) w(1,2) obtain revealed K where r:
    "shown = renderMask ''Elephant'' revealed"
    "revealCountOf (length ''Elephant'') = Fin (of_nat K)"
    "length (lettersShown ''Elephant'' revealed) = K"
    "0 \<in> set (lettersShown ''Elephant'' revealed)"
    "\<forall>i<length ''Elephant''. shown ! (2 * i)
        = (if i \<in> set (lettersShown ''Elephant'' revealed) then ''Elephant'' ! i else CHR ''_'')"
    "shown \<noteq> ''Elephant''"
    by auto
  have K: "K = 2" using r(2) rc by simp
  have e: "shown ! 0 = CHR ''E''" using r(4,5) by force
  have out: "outbox s' = outbox trio @
            [(IoTo ''c'', CorrectGuess ''Cy'' ''Elephant'' True
                (calculateScore (num (timer ?gs)) (num (roundTime ?gs)))),
             (SocketTo ''c'' ''AAAA'', CorrectGuess ''Cy'' shown False
                (calculateScore (num (timer ?gs)) (num (roundTime ?gs))))]"
    using sh(2) w(1) by (simp add: cy_def)
  have "\<exists>s' shown revealed. submitGuess 8500 ''c'' ''elephant'' trio = Inr s'
        \<and> outbox s' = outbox trio @
            [(IoTo ''c'', CorrectGuess ''Cy'' ''Elephant'' True
                (calculateScore (num (timer ?gs)) (num (roundTime ?gs)))),
             (SocketTo ''c'' ''AAAA'', CorrectGuess ''Cy'' shown False
                (calculateScore (num (timer ?gs)) (num (roundTime ?gs))))]
        \<and> shown = renderMask ''Elephant'' revealed
        \<and> length (lettersShown ''Elephant'' revealed) = 2
        \<and> shown ! 0 = CHR ''E'' \<and> shown \<noteq> ''Elephant''"
    using sh(1) out r(1,3,6) K e by blast
  then show ?thesis
    using h1 h5 h9 w(1,2) rc cov by simp
qed

text \<open>
  The same guess traced through the loop: the value \<open>1/2\<close> of the random source gives
  position 4, and the rest of the room is sent \<open>E _ _ _ h _ _ _\<close>.
\<close>

lemma renderMask_elephant: "renderMask ''Elephant'' [Fin 0, Fin 4] = ''E _ _ _ h _ _ _''"
  by code_simp

lemma num_2: "num 2 = Fin 2"
  by code_simp

lemma maskLoop_dice:
  "maskLoop dice (length ''Elephant'') (Fin 2) [Fin 0] 6 = Some ([Fin 0, Fin 4], 7)"
proof -
  have "maskLoop dice (length ''Elephant'') (Fin 2) [Fin 0, Fin 4] 7 = Some ([Fin 0, Fin 4], 7)"
    by (subst maskLoop.simps) (simp add: num_2)
  then show ?thesis
    by (subst maskLoop.simps) (simp only: posAt_dice, simp add: num_1)
qed

lemma maskWord_trio:
  "map_option fst (maskWord ''Elephant'' trio) = Some ''E _ _ _ h _ _ _''"
proof -
  have "random trio = dice" "drawn trio = 6" using trio_facts by blast+
  then have "maskWord ''Elephant'' trio
      = Some (renderMask ''Elephant'' [Fin 0, Fin 4], trio\<lparr>drawn := 7\<rparr>)"
    unfolding maskWord_def revealCountOf_8 by (simp only: maskLoop_dice) simp
  then show ?thesis by (simp only: renderMask_elephant) simp
qed

lemma trio_masked:
  "\<exists>s'. submitGuess 8500 ''c'' ''elephant'' trio = Inr s'
     \<and> correctGuesses (drop (length (outbox trio)) (outbox s'))
         = [(IoTo ''c'', ''Elephant'', True), (SocketTo ''c'' ''AAAA'', ''E _ _ _ h _ _ _'', False)]"
proof -
  let ?gs = "the (gameState (heap trio 0))"
  let ?s0 = "trio\<lparr>guard := snd (checkCooldown 8500 ''c'' Guess (guard trio))\<rparr>"
  note f = trio_facts
  have h5: "gameState (heap trio 0) = Some ?gs" using f by auto
  have h1: "players trio ''c'' = Some cy"
    "allowed (fst (checkCooldown 8500 ''c'' Guess (guard trio)))"
    "rooms trio (room cy) = Some 0" "state (heap trio 0) = Playing"
    "Some ''c'' \<noteq> currentDrawer ?gs" "''c'' \<notin> set (playersWhoGuessed ?gs)"
    "toLowerCase ''elephant'' = toLowerCase (word ?gs)"
    using f by blast+
  have w: "word ?gs = ''Elephant''" "length (roomPlayers (heap trio 0)) = 3" using f by blast+
  have m: "map_option fst (maskWord ''Elephant'' ?s0) = Some ''E _ _ _ h _ _ _''"
    using maskWord_cong [of ?s0 trio "''Elephant''"] maskWord_trio by simp
  have eq: "submitGuess 8500 ''c'' ''elephant'' trio = correctGuess 8500 ''c'' cy 0 ?gs ?s0"
    by (rule submitGuess_correct [OF h1(1-4) h5 h1(5-7)])
  from correctGuess_outcome [of ?s0 0 ?gs 8500 "''c''" cy] m w
  obtain s' where "correctGuess 8500 ''c'' cy 0 ?gs ?s0 = Inr s'"
    "outbox s' = outbox trio @
           [(IoTo ''c'', CorrectGuess (name cy) ''Elephant'' True
               (calculateScore (num (timer ?gs)) (num (roundTime ?gs)))),
            (SocketTo ''c'' (room cy), CorrectGuess (name cy) ''E _ _ _ h _ _ _'' False
               (calculateScore (num (timer ?gs)) (num (roundTime ?gs))))]"
    by auto
  then show ?thesis unfolding eq by (simp add: cy_def)
qed

text \<open>
  C6 as stated fails in a room of exactly two players: after Bob's correct guess in
  \<open>doubleEnd\<close>, the message to the rest of the room (Ann) carries \<open>APPLE\<close> itself. And the
  rendering of a one-letter word is that letter.
\<close>

theorem correctGuess_audience_counterexample:
  "(case run (take 4 doubleEnd) server0 of
      Inl e \<Rightarrow> False
    | Inr s \<Rightarrow> length (roomPlayers (heap s 0)) = 2
        \<and> correctGuesses (outbox s)
            = [(IoTo ''b'', ''APPLE'', True), (SocketTo ''b'' ''AAAA'', ''APPLE'', False)])
   \<and> map_option fst (maskWord ''A'' server0) = Some ''A''"
proof -
  have "map_option fst (maskWord ''A'' server0) = Some ''A''"
    using maskWord_short [of "''A''" server0] revealCountOf_1
    by (simp add: renderMask_def num_exact)
  moreover have "(case run (take 4 doubleEnd) server0 of
      Inl e \<Rightarrow> False
    | Inr s \<Rightarrow> length (roomPlayers (heap s 0)) = 2
        \<and> correctGuesses (outbox s)
            = [(IoTo ''b'', ''APPLE'', True), (SocketTo ''b'' ''AAAA'', ''APPLE'', False)])"
    by code_simp
  ultimately show ?thesis by blast
qed

subsection \<open>One room per player\<close>

lemma view_eq:
  "view s' = view s \<longleftrightarrow> rooms s' = rooms s \<and> nextRef s' = nextRef s
     \<and> (\<forall>r. map mId (roomPlayers (heap s' r)) = map mId (roomPlayers (heap s r)))
     \<and> (\<forall>sid. map_option room (players s' sid) = map_option room (players s sid))"
  by (auto simp: view_def memberIds_def fun_eq_iff)



lemma view_emit [simp]: "view (emit a m s) = view s"
  by (simp add: view_eq emit_def)

lemma view_clearInterval [simp]: "view (clearInterval h s) = view s"
  by (simp add: view_eq clearInterval_def split: option.splits)

lemma view_releaseWord [simp]: "view (releaseWord w s) = view s"
  by (simp add: view_eq releaseWord_def)

lemma view_setTimer [simp]: "view (snd (setTimer d t s)) = view s"
  by (simp add: view_eq setTimer_def)

lemma view_guard [simp]: "view (s\<lparr>guard := g\<rparr>) = view s"
  by (simp add: view_eq)

lemma view_timers [simp]: "view (s\<lparr>timers := t\<rparr>) = view s"
  by (simp add: view_eq)

lemma view_setRoom:
  "map mId (roomPlayers rm) = map mId (roomPlayers (heap s r)) \<Longrightarrow> view (setRoom r rm s) = view s"
  by (simp add: view_eq setRoom_def)




lemma view_getRandomWord: "getRandomWord now d s = Inr (w, s') \<Longrightarrow> view s' = view s"
  by (auto simp: getRandomWord_def view_eq randomIndex_def Let_def split: option.splits)

lemma heap_getRandomWord: "getRandomWord now d s = Inr (w, s') \<Longrightarrow> heap s' = heap s"
  by (auto simp: getRandomWord_def randomIndex_def Let_def split: option.splits)










lemma view_sendChatMessage [simp]: "view (sendChatMessage now sid t s) = view s"
  by (auto simp: sendChatMessage_def Let_def split_beta split: option.splits)

lemma view_playAgain [simp]: "view (playAgain sid s) = view s"
  by (auto simp: playAgain_def view_setRoom split: option.splits)

lemma update_found:
  "find (\<lambda>m. mId m = sid) xs = Some x \<Longrightarrow>
   (map mId xs)[length (takeWhile (\<lambda>m. mId m \<noteq> sid) xs) := mId x] = map mId xs"
  by (induction xs) (auto split: if_splits)

lemma view_updateAvatar [simp]: "view (updateAvatar sid av s) = view s"
  by (auto simp: updateAvatar_def Let_def view_eq setRoom_def emit_def map_update update_found
        split: option.splits)





lemma memberIds_rooms [simp]: "memberIds (s\<lparr>rooms := x\<rparr>) = memberIds s"
  by (simp add: memberIds_def fun_eq_iff)











subsection \<open>Scores accumulate\<close>

lemma heap_maskWord: "maskWord w s = Some (m, s') \<Longrightarrow> heap s' = heap s"
  by (auto simp: maskWord_def split: option.splits if_splits)

lemma correctGuess_scores:
  assumes "correctGuess now sid player r gs s = Inr s'" "currentDrawer gs = Some d"
  shows "map_option scores (gameState (heap s' r))
    = Some (assign d
        (js_add
           (orZero (map_of (assign sid (js_add (orZero (map_of (scores gs) sid))
                      (calculateScore (num (timer gs)) (num (roundTime gs)))) (scores gs)) d))
           (Math_floor (js_mul (calculateScore (num (timer gs)) (num (roundTime gs)))
              (rnd (1 / 2)))))
        (assign sid (js_add (orZero (map_of (scores gs) sid))
           (calculateScore (num (timer gs)) (num (roundTime gs)))) (scores gs)))"
  using assms
  by (auto simp: correctGuess_def Let_def setRoom_def emit_def setTimer_def clearInterval_def
        split: option.splits if_splits dest!: heap_maskWord)

lemma map_of_assign: "map_of (assign k v xs) = (map_of xs)(k \<mapsto> v)"
  by (induction xs) (auto simp: fun_eq_iff)

text \<open>
  With a round of 60 seconds, the round length of the specification's example,
  \<open>calculateScore\<close> agrees with the exact quotient at every second.
\<close>

lemma calculateScore_60:
  "list_all (\<lambda>t. calculateScore (num t) (num 60) = Fin (of_int ((100 * t) div 60))) [0..60]"
  by code_simp

end
